theory Spec2Isabelle
  imports Complex_Main
begin

section \<open>Memory, pointers and counted loops\<close>

text \<open>
  The kernels of \<^verbatim>\<open>rha_direct_dot.c\<close> work on flat arrays of \<^verbatim>\<open>double complex\<close> through
  pointers. An array argument is modelled as the memory seen from the pointer that was
  passed: cell \<open>k\<close> of \<open>p\<close> is the C expression \<^verbatim>\<open>p[k]\<close>. Indices are C \<^verbatim>\<open>int\<close>s, modelled
  as unbounded integers (signed overflow is undefined in C, so no wrap-around is part of
  the program). The scalar type is left abstract: the definitions only use the operations
  \<open>+\<close>, \<open>*\<close>, \<open>0\<close>, \<open>1\<close> and unary minus, and a result that assumes no algebraic law holds
  for floating-point arithmetic as well as for exact complex numbers.
\<close>

type_synonym 'a mem = "int \<Rightarrow> 'a"
type_synonym ints = "int \<Rightarrow> int"

text \<open>\<^verbatim>\<open>p + d\<close>: the memory seen from the advanced pointer.\<close>

definition ptr_add :: "'a mem \<Rightarrow> int \<Rightarrow> 'a mem" where
  "ptr_add p d = (\<lambda>k. p (d + k))"

text \<open>
  A callee that writes through the pointer \<^verbatim>\<open>p + d\<close>: it works on the memory seen from
  \<^verbatim>\<open>p + d\<close>, and the caller sees its writes \<open>d\<close> cells further on.
\<close>

definition through :: "int \<Rightarrow> ('a mem \<Rightarrow> 'a mem) \<Rightarrow> 'a mem \<Rightarrow> 'a mem" where
  "through d f p = ptr_add (f (ptr_add p d)) (- d)"

text \<open>
  \<^verbatim>\<open>for (i = i0; i < n; i++) s = body(i, s);\<close> Every loop of the file has this shape; the
  other variables a loop updates (running pointers, second counters) are part of \<open>s\<close>.
\<close>

function for_loop :: "int \<Rightarrow> int \<Rightarrow> (int \<Rightarrow> 's \<Rightarrow> 's) \<Rightarrow> 's \<Rightarrow> 's" where
  "for_loop i n body s = (if i < n then for_loop (i + 1) n body (body i s) else s)"
  by pat_completeness auto
termination
  by (relation "measure (\<lambda>(i, n, body, s). nat (n - i))") auto

declare for_loop.simps [simp del]

section \<open>Failure\<close>

text \<open>
  \<^verbatim>\<open>assert(e)\<close> is the macro of \<^verbatim>\<open>assert.h\<close>: in a build that does not define \<^verbatim>\<open>NDEBUG\<close> it
  aborts the process when \<open>e\<close> is false, and in a build that defines \<^verbatim>\<open>NDEBUG\<close> it
  expands to nothing. The build file of the repository selects the build type
  \<^verbatim>\<open>RELWITHDEBINFO\<close> unless another one is given, and CMake compiles that type with
  \<^verbatim>\<open>-DNDEBUG\<close>; so both builds are modelled, and the flag is part of what a kernel is
  compiled with (the field \<open>NDEBUG\<close> of the record below). A kernel returns either the
  reason of the abort or the updated output memory. The delegated \<^verbatim>\<open>CVHFrs*\<close> kernels
  live in \<^verbatim>\<open>r_direct_dot.c\<close>, which is not part of the sources at hand; they may abort
  too, which is the value \<open>None\<close> of a delegated call.
\<close>

datatype abort = Assertion string | Callee_abort

definition callee :: "'a mem option \<Rightarrow> abort + 'a mem" where
  "callee r = (case r of None \<Rightarrow> Inl Callee_abort | Some v \<Rightarrow> Inr v)"

section \<open>Library routines\<close>

text \<open>
  \<^verbatim>\<open>NPzset0(p, n)\<close> (\<^verbatim>\<open>np_helper.h\<close>) clears the first \<open>n\<close> cells of a complex array.
\<close>

definition NPzset0 :: "('a::zero) mem \<Rightarrow> int \<Rightarrow> 'a mem" where
  "NPzset0 p n = (\<lambda>k. if 0 \<le> k \<and> k < n then 0 else p k)"

text \<open>\<open>dot n f\<close> adds up \<open>f 0, ..., f (n - 1)\<close> in index order.\<close>

definition dot :: "int \<Rightarrow> (int \<Rightarrow> 'a::{plus,zero}) \<Rightarrow> 'a" where
  "dot n f = for_loop 0 n (\<lambda>c acc. acc + f c) 0"

text \<open>
  \<^verbatim>\<open>zgemv_(trans, m, n, alpha, A, lda, x, incx, beta, y, incy)\<close> is the BLAS level-2 routine
  (\<^verbatim>\<open>fblas.h\<close>): \<open>y := alpha * op(A) * x + beta * y\<close> for the column-major \<open>m\<close> by \<open>n\<close>
  matrix \<open>A\<close> with leading dimension \<open>lda\<close>, where \<open>op(A)\<close> is \<open>A\<close> for \<^verbatim>\<open>'N'\<close> and its
  transpose for \<^verbatim>\<open>'T'\<close>. The model covers positive increments (the kernels always pass 1)
  and returns the new contents of \<open>y\<close>. (An Isabelle name cannot end in an
  underscore, hence \<open>zgemv\<close>.)
\<close>

definition zgemv ::
  "char \<Rightarrow> int \<Rightarrow> int \<Rightarrow> 'a \<Rightarrow> 'a mem \<Rightarrow> int \<Rightarrow> 'a mem \<Rightarrow> int \<Rightarrow> 'a \<Rightarrow> ('a::{plus,times,zero}) mem
     \<Rightarrow> int \<Rightarrow> 'a mem" where
  "zgemv tr m n alpha A lda x incx beta y incy =
     (if tr = CHR ''N'' then
        (\<lambda>k. if incy dvd k \<and> 0 \<le> k div incy \<and> k div incy < m
              then beta * y k + alpha * dot n (\<lambda>c. A (k div incy + c * lda) * x (c * incx))
              else y k)
      else if tr = CHR ''T'' then
        (\<lambda>k. if incy dvd k \<and> 0 \<le> k div incy \<and> k div incy < n
              then beta * y k + alpha * dot m (\<lambda>r. A (r + k div incy * lda) * x (r * incx))
              else y k)
      else y)"

section \<open>The back-distribution of rha\_direct\_dot.c\<close>

text \<open>
  \<^verbatim>\<open>
  static void adbak_blockT(double complex *a, double complex *blk,
                           int n, int istart, int iend, int jstart, int jend)
  {
          int i, j, i1, j1;
          int m = iend - istart;
          a = a + istart * n;
          for (i = istart, i1 = 0; i < iend; i++, i1++) {
                  for (j = jstart, j1 = 0; j < jend; j++, j1++) {
                          a[j] += blk[j1*m+i1];
                  }
                  a += n;
          }
  }
  \<close>
  The local pointer \<^verbatim>\<open>a\<close> is the offset \<open>pa\<close> from the pointer that was passed.
\<close>

definition adbak_blockT ::
  "('a::plus) mem \<Rightarrow> 'a mem \<Rightarrow> int \<Rightarrow> int \<Rightarrow> int \<Rightarrow> int \<Rightarrow> int \<Rightarrow> 'a mem" where
  "adbak_blockT a blk n istart iend jstart jend =
    (let m = iend - istart;
         pa = istart * n
     in fst (for_loop istart iend
          (\<lambda>i (a, pa, i1).
             let (a, j1) = for_loop jstart jend
                   (\<lambda>j (a, j1). (a(pa + j := a (pa + j) + blk (j1 * m + i1)), j1 + 1)) (a, 0)
             in (a, pa + n, i1 + 1))
          (a, pa, 0)))"

section \<open>The build and the collaborators\<close>

text \<open>
  What the file is compiled and linked with. The kernels call functions of this
  repository whose source files (\<^verbatim>\<open>r_direct_dot.c\<close>, \<^verbatim>\<open>time_rev.c\<close>) are not among the
  sources at hand. They are parameters of the model, collected in one record together
  with the build's \<^verbatim>\<open>NDEBUG\<close>, and every result below holds for all values of them unless
  it says otherwise.
  \<^item> \<open>NDEBUG\<close> says whether the macro \<^verbatim>\<open>NDEBUG\<close> is defined when the file is compiled.
  \<^item> The \<^verbatim>\<open>CVHFrs*\<close> kernels have the signature of the kernels of this file; a call
    returns the new output memory, or \<open>None\<close> when it aborts.
  \<^item> \<^verbatim>\<open>CVHFtimerev_X(block, mat, tao, istart, iend, jstart, jend, nao)\<close> fills \<open>block\<close>
    from the matrix \<open>mat\<close>; the model returns the new contents of \<open>block\<close>.
  \<^item> \<^verbatim>\<open>CVHFtimerev_adbak_X(block, mat, tao, istart, iend, jstart, jend, nao)\<close> adds
    \<open>block\<close> back into \<open>mat\<close>; the model returns the new contents of \<open>mat\<close>.
  \<^item> \<open>uninit_sdm\<close> and \<open>uninit_svk\<close> are the indeterminate initial contents of the local
    arrays \<^verbatim>\<open>sdm\<close> and \<^verbatim>\<open>svj\<close>/\<^verbatim>\<open>svk\<close>, which C does not initialise.
\<close>

type_synonym ('a, 'c, 'd) rs_kernel =
  "'a mem \<Rightarrow> 'a mem \<Rightarrow> 'a mem \<Rightarrow> int \<Rightarrow> int \<Rightarrow> ints \<Rightarrow> ints \<Rightarrow> ints \<Rightarrow> 'c \<Rightarrow> int \<Rightarrow> 'd
     \<Rightarrow> 'a mem option"

type_synonym 'a timerev =
  "'a mem \<Rightarrow> 'a mem \<Rightarrow> ints \<Rightarrow> int \<Rightarrow> int \<Rightarrow> int \<Rightarrow> int \<Rightarrow> int \<Rightarrow> 'a mem"

record ('a, 'c, 'd) collab =
  NDEBUG :: bool
  CVHFrs1_ji_s1kl :: "('a, 'c, 'd) rs_kernel"
  CVHFrs1_lk_s1ij :: "('a, 'c, 'd) rs_kernel"
  CVHFrs1_jk_s1il :: "('a, 'c, 'd) rs_kernel"
  CVHFrs1_li_s1kj :: "('a, 'c, 'd) rs_kernel"
  CVHFrs2ij_ji_s1kl :: "('a, 'c, 'd) rs_kernel"
  CVHFrs2ij_lk_s2ij :: "('a, 'c, 'd) rs_kernel"
  CVHFrs2ij_jk_s1il :: "('a, 'c, 'd) rs_kernel"
  CVHFrs2ij_li_s1kj :: "('a, 'c, 'd) rs_kernel"
  CVHFtimerev_ijminus :: "'a timerev"
  CVHFtimerev_jT :: "'a timerev"
  CVHFtimerev_i :: "'a timerev"
  CVHFtimerev_iT :: "'a timerev"
  CVHFtimerev_j :: "'a timerev"
  CVHFtimerev_blockT :: "'a timerev"
  CVHFtimerev_block :: "'a timerev"
  CVHFtimerev_adbak_jT :: "'a timerev"
  CVHFtimerev_adbak_i :: "'a timerev"
  CVHFtimerev_adbak_iT :: "'a timerev"
  CVHFtimerev_adbak_j :: "'a timerev"
  CVHFtimerev_adbak_blockT :: "'a timerev"
  CVHFtimerev_adbak_block :: "'a timerev"
  uninit_sdm :: "'a mem"
  uninit_svk :: "'a mem"

section \<open>The kernels\<close>

text \<open>
  The macro \<^verbatim>\<open>LOCIJKL\<close> declares the AO ranges of the four shells in the scope that
  follows it; the model passes them to the rest of the function body.
  \<^verbatim>\<open>
  #define LOCIJKL \
  const int ish = shls[0]; const int jsh = shls[1]; const int ksh = shls[2]; const int lsh = shls[3]; \
  const int istart = ao_loc[ish]; const int jstart = ao_loc[jsh]; \
  const int kstart = ao_loc[ksh]; const int lstart = ao_loc[lsh]; \
  const int iend = ao_loc[ish+1]; const int jend = ao_loc[jsh+1]; \
  const int kend = ao_loc[ksh+1]; const int lend = ao_loc[lsh+1]; \
  const int di = iend - istart; const int dj = jend - jstart; \
  const int dk = kend - kstart; const int dl = lend - lstart;
  \<close>
\<close>

definition LOCIJKL ::
  "ints \<Rightarrow> ints \<Rightarrow>
   (int \<Rightarrow> int \<Rightarrow> int \<Rightarrow> int \<Rightarrow> int \<Rightarrow> int \<Rightarrow> int \<Rightarrow> int \<Rightarrow> int \<Rightarrow> int \<Rightarrow> int \<Rightarrow> int \<Rightarrow> 'r) \<Rightarrow> 'r" where
  "LOCIJKL shls ao_loc rest =
     (let ish = shls 0; jsh = shls 1; ksh = shls 2; lsh = shls 3;
          istart = ao_loc ish; jstart = ao_loc jsh; kstart = ao_loc ksh; lstart = ao_loc lsh;
          iend = ao_loc (ish + 1); jend = ao_loc (jsh + 1);
          kend = ao_loc (ksh + 1); lend = ao_loc (lsh + 1);
          di = iend - istart; dj = jend - jstart; dk = kend - kstart; dl = lend - lstart
      in rest istart jstart kstart lstart iend jend kend lend di dj dk dl)"

subsection \<open>No symmetry (rha1) and pair symmetry in ij (rha2ij): delegation\<close>

definition CVHFrha1_ji_s1kl ::
  "('a, 'c, 'd) collab \<Rightarrow> 'a mem \<Rightarrow> 'a mem \<Rightarrow> 'a mem \<Rightarrow> int \<Rightarrow> int \<Rightarrow> ints \<Rightarrow> ints \<Rightarrow> ints
     \<Rightarrow> 'c \<Rightarrow> int \<Rightarrow> 'd \<Rightarrow> abort + 'a mem" where
  "CVHFrha1_ji_s1kl X eri dm vj nao ncomp shls ao_loc tao dm_cond nbas dm_atleast =
     callee (CVHFrs1_ji_s1kl X eri dm vj nao ncomp shls ao_loc tao dm_cond nbas dm_atleast)"

definition CVHFrha1_lk_s1ij ::
  "('a, 'c, 'd) collab \<Rightarrow> 'a mem \<Rightarrow> 'a mem \<Rightarrow> 'a mem \<Rightarrow> int \<Rightarrow> int \<Rightarrow> ints \<Rightarrow> ints \<Rightarrow> ints
     \<Rightarrow> 'c \<Rightarrow> int \<Rightarrow> 'd \<Rightarrow> abort + 'a mem" where
  "CVHFrha1_lk_s1ij X eri dm vj nao ncomp shls ao_loc tao dm_cond nbas dm_atleast =
     callee (CVHFrs1_lk_s1ij X eri dm vj nao ncomp shls ao_loc tao dm_cond nbas dm_atleast)"

definition CVHFrha1_jk_s1il ::
  "('a, 'c, 'd) collab \<Rightarrow> 'a mem \<Rightarrow> 'a mem \<Rightarrow> 'a mem \<Rightarrow> int \<Rightarrow> int \<Rightarrow> ints \<Rightarrow> ints \<Rightarrow> ints
     \<Rightarrow> 'c \<Rightarrow> int \<Rightarrow> 'd \<Rightarrow> abort + 'a mem" where
  "CVHFrha1_jk_s1il X eri dm vk nao ncomp shls ao_loc tao dm_cond nbas dm_atleast =
     callee (CVHFrs1_jk_s1il X eri dm vk nao ncomp shls ao_loc tao dm_cond nbas dm_atleast)"

definition CVHFrha1_li_s1kj ::
  "('a, 'c, 'd) collab \<Rightarrow> 'a mem \<Rightarrow> 'a mem \<Rightarrow> 'a mem \<Rightarrow> int \<Rightarrow> int \<Rightarrow> ints \<Rightarrow> ints \<Rightarrow> ints
     \<Rightarrow> 'c \<Rightarrow> int \<Rightarrow> 'd \<Rightarrow> abort + 'a mem" where
  "CVHFrha1_li_s1kj X eri dm vk nao ncomp shls ao_loc tao dm_cond nbas dm_atleast =
     callee (CVHFrs1_li_s1kj X eri dm vk nao ncomp shls ao_loc tao dm_cond nbas dm_atleast)"





subsection \<open>Pair symmetry in kl (rha2kl)\<close>


text \<open>
  The component loop of \<^verbatim>\<open>CVHFrha2kl_lk_s1ij\<close> (lines 163 to 170). The loop state holds
  the running pointers \<^verbatim>\<open>eri\<close> and \<^verbatim>\<open>vj\<close> (as offsets from the arguments), the local
  array \<^verbatim>\<open>svj\<close> and the output memory.
  \<^verbatim>\<open>
  for (ic = 0; ic < ncomp; ic++) {
          NPzset0(svj, dij);
          zgemv_(&TRANSN, &dij, &dkl, &Z1, eri, &dij, sdm, &INC1, &Z0, svj, &INC1);
          adbak_blockT(vj, svj, nao, istart, iend, jstart, jend);
          eri += dij*dkl;
          vj += nao*nao;
  }
  \<close>
\<close>

definition rha2kl_lk_loop ::
  "('a::{plus,times,zero,one}) mem \<Rightarrow> 'a mem \<Rightarrow> int \<Rightarrow> int \<Rightarrow> int \<Rightarrow> int \<Rightarrow> int \<Rightarrow> int \<Rightarrow> int \<Rightarrow> int
     \<Rightarrow> int \<times> int \<times> 'a mem \<times> 'a mem \<Rightarrow> int \<times> int \<times> 'a mem \<times> 'a mem" where
  "rha2kl_lk_loop eri sdm nao ncomp istart iend jstart jend dij dkl =
     for_loop 0 ncomp
       (\<lambda>ic (eri_p, vj_p, svj, vj).
          let svj = NPzset0 svj dij;
              svj = zgemv CHR ''N'' dij dkl 1 (ptr_add eri eri_p) dij sdm 1 0 svj 1;
              vj = through vj_p (\<lambda>a. adbak_blockT a svj nao istart iend jstart jend) vj
          in (eri_p + dij * dkl, vj_p + nao * nao, svj, vj))"

definition CVHFrha2kl_lk_s1ij ::
  "('a::{plus,times,zero,one}, 'c, 'd) collab \<Rightarrow> 'a mem \<Rightarrow> 'a mem \<Rightarrow> 'a mem \<Rightarrow> int \<Rightarrow> int
     \<Rightarrow> ints \<Rightarrow> ints \<Rightarrow> ints \<Rightarrow> 'c \<Rightarrow> int \<Rightarrow> 'd \<Rightarrow> abort + 'a mem" where
  "CVHFrha2kl_lk_s1ij X eri dm vj nao ncomp shls ao_loc tao dm_cond nbas dm_atleast =
     (if \<not> NDEBUG X \<and> \<not> shls 2 \<ge> shls 3 then Inl (Assertion ''shls[2] >= shls[3]'')
      else if shls 2 = shls 3 then
        callee (CVHFrs1_lk_s1ij X eri dm vj nao ncomp shls ao_loc tao dm_cond nbas dm_atleast)
      else
        LOCIJKL shls ao_loc
          (\<lambda>istart jstart kstart lstart iend jend kend lend di dj dk dl.
             let dij = di * dj;
                 dkl = dk * dl;
                 sdm = CVHFtimerev_ijminus X (uninit_sdm X) dm tao lstart lend kstart kend nao;
                 (eri_p, vj_p, svj, vj) =
                    rha2kl_lk_loop eri sdm nao ncomp istart iend jstart jend dij dkl
                      (0, 0, uninit_svk X, vj)
             in Inr vj))"

text \<open>
  The component loop of \<^verbatim>\<open>CVHFrha2kl_jk_s1il\<close> (lines 199 to 207); \<^verbatim>\<open>p0213\<close> starts at
  \<^verbatim>\<open>eri + dik*djl*ncomp\<close>.
  \<^verbatim>\<open>
  for (ic = 0; ic < ncomp; ic++) {
          NPzset0(svk, dik);
          zgemv_(&TRANSN, &dik, &djl, &Z_1, p0213, &dik, sdm, &INC1, &Z1, svk, &INC1);
          CVHFtimerev_adbak_jT(svk, vk, tao, istart, iend, kstart, kend, nao);
          eri += dik*djl;
          p0213 += dik*djl;
          vk += nao*nao;
  }
  \<close>
\<close>

definition rha2kl_jk_loop ::
  "('a::{plus,times,zero,one,uminus}, 'c, 'd) collab \<Rightarrow> 'a mem \<Rightarrow> 'a mem \<Rightarrow> ints \<Rightarrow> int \<Rightarrow> int
     \<Rightarrow> int \<Rightarrow> int \<Rightarrow> int \<Rightarrow> int \<Rightarrow> int \<Rightarrow> int
     \<Rightarrow> int \<times> int \<times> int \<times> 'a mem \<times> 'a mem \<Rightarrow> int \<times> int \<times> int \<times> 'a mem \<times> 'a mem" where
  "rha2kl_jk_loop X eri sdm tao nao ncomp istart iend kstart kend dik djl =
     for_loop 0 ncomp
       (\<lambda>ic (eri_p, p0213, vk_p, svk, vk).
          let svk = NPzset0 svk dik;
              svk = zgemv CHR ''N'' dik djl (- 1) (ptr_add eri p0213) dik sdm 1 1 svk 1;
              vk = through vk_p
                     (\<lambda>mat. CVHFtimerev_adbak_jT X svk mat tao istart iend kstart kend nao) vk
          in (eri_p + dik * djl, p0213 + dik * djl, vk_p + nao * nao, svk, vk))"

definition CVHFrha2kl_jk_s1il ::
  "('a::{plus,times,zero,one,uminus}, 'c, 'd) collab \<Rightarrow> 'a mem \<Rightarrow> 'a mem \<Rightarrow> 'a mem \<Rightarrow> int \<Rightarrow> int
     \<Rightarrow> ints \<Rightarrow> ints \<Rightarrow> ints \<Rightarrow> 'c \<Rightarrow> int \<Rightarrow> 'd \<Rightarrow> abort + 'a mem" where
  "CVHFrha2kl_jk_s1il X eri dm vk nao ncomp shls ao_loc tao dm_cond nbas dm_atleast =
     (if \<not> NDEBUG X \<and> \<not> shls 2 \<ge> shls 3 then Inl (Assertion ''shls[2] >= shls[3]'')
      else
        case callee (CVHFrs1_jk_s1il X eri dm vk nao ncomp shls ao_loc tao dm_cond nbas dm_atleast) of
          Inl e \<Rightarrow> Inl e
        | Inr vk \<Rightarrow>
            if shls 2 = shls 3 then Inr vk
            else
              LOCIJKL shls ao_loc
                (\<lambda>istart jstart kstart lstart iend jend kend lend di dj dk dl.
                   let dik = di * dk;
                       djl = dj * dl;
                       p0213 = dik * djl * ncomp;
                       sdm = CVHFtimerev_jT X (uninit_sdm X) dm tao jstart jend lstart lend nao;
                       (eri_p, p0213, vk_p, svk, vk) =
                          rha2kl_jk_loop X eri sdm tao nao ncomp istart iend kstart kend dik djl
                            (0, p0213, 0, uninit_svk X, vk)
                   in Inr vk))"

text \<open>
  The component loop of \<^verbatim>\<open>CVHFrha2kl_li_s1kj\<close> (lines 235 to 243).
  \<^verbatim>\<open>
  for (ic = 0; ic < ncomp; ic++) {
          NPzset0(svk, dl*dj);
          zgemv_(&TRANST, &dik, &djl, &Z_1, p0213, &dik, sdm, &INC1, &Z1, svk, &INC1);
          CVHFtimerev_adbak_i(svk, vk, tao, lstart, lend, jstart, jend, nao);
          eri += dik*djl;
          p0213 += dik*djl;
          vk += nao*nao;
  }
  \<close>
\<close>

definition rha2kl_li_loop ::
  "('a::{plus,times,zero,one,uminus}, 'c, 'd) collab \<Rightarrow> 'a mem \<Rightarrow> 'a mem \<Rightarrow> ints \<Rightarrow> int \<Rightarrow> int
     \<Rightarrow> int \<Rightarrow> int \<Rightarrow> int \<Rightarrow> int \<Rightarrow> int \<Rightarrow> int \<Rightarrow> int \<Rightarrow> int
     \<Rightarrow> int \<times> int \<times> int \<times> 'a mem \<times> 'a mem \<Rightarrow> int \<times> int \<times> int \<times> 'a mem \<times> 'a mem" where
  "rha2kl_li_loop X eri sdm tao nao ncomp lstart lend jstart jend dik djl dl dj =
     for_loop 0 ncomp
       (\<lambda>ic (eri_p, p0213, vk_p, svk, vk).
          let svk = NPzset0 svk (dl * dj);
              svk = zgemv CHR ''T'' dik djl (- 1) (ptr_add eri p0213) dik sdm 1 1 svk 1;
              vk = through vk_p
                     (\<lambda>mat. CVHFtimerev_adbak_i X svk mat tao lstart lend jstart jend nao) vk
          in (eri_p + dik * djl, p0213 + dik * djl, vk_p + nao * nao, svk, vk))"

definition CVHFrha2kl_li_s1kj ::
  "('a::{plus,times,zero,one,uminus}, 'c, 'd) collab \<Rightarrow> 'a mem \<Rightarrow> 'a mem \<Rightarrow> 'a mem \<Rightarrow> int \<Rightarrow> int
     \<Rightarrow> ints \<Rightarrow> ints \<Rightarrow> ints \<Rightarrow> 'c \<Rightarrow> int \<Rightarrow> 'd \<Rightarrow> abort + 'a mem" where
  "CVHFrha2kl_li_s1kj X eri dm vk nao ncomp shls ao_loc tao dm_cond nbas dm_atleast =
     (if \<not> NDEBUG X \<and> \<not> shls 2 \<ge> shls 3 then Inl (Assertion ''shls[2] >= shls[3]'')
      else
        case callee (CVHFrs1_li_s1kj X eri dm vk nao ncomp shls ao_loc tao dm_cond nbas dm_atleast) of
          Inl e \<Rightarrow> Inl e
        | Inr vk \<Rightarrow>
            if shls 2 = shls 3 then Inr vk
            else
              LOCIJKL shls ao_loc
                (\<lambda>istart jstart kstart lstart iend jend kend lend di dj dk dl.
                   let dik = di * dk;
                       djl = dj * dl;
                       p0213 = dik * djl * ncomp;
                       sdm = CVHFtimerev_i X (uninit_sdm X) dm tao kstart kend istart iend nao;
                       (eri_p, p0213, vk_p, svk, vk) =
                          rha2kl_li_loop X eri sdm tao nao ncomp lstart lend jstart jend dik djl dl dj
                            (0, p0213, 0, uninit_svk X, vk)
                   in Inr vk))"

subsection \<open>Pair symmetry in ij and in kl (rha4)\<close>

definition CVHFrha4_ji_s2kl ::
  "('a, 'c, 'd) collab \<Rightarrow> 'a mem \<Rightarrow> 'a mem \<Rightarrow> 'a mem \<Rightarrow> int \<Rightarrow> int \<Rightarrow> ints \<Rightarrow> ints \<Rightarrow> ints
     \<Rightarrow> 'c \<Rightarrow> int \<Rightarrow> 'd \<Rightarrow> abort + 'a mem" where
  "CVHFrha4_ji_s2kl X eri dm vj nao ncomp shls ao_loc tao dm_cond nbas dm_atleast =
     (if \<not> NDEBUG X \<and> \<not> shls 0 \<ge> shls 1 then Inl (Assertion ''shls[0] >= shls[1]'')
      else if \<not> NDEBUG X \<and> \<not> shls 2 \<ge> shls 3 then Inl (Assertion ''shls[2] >= shls[3]'')
      else callee (CVHFrs2ij_ji_s1kl X eri dm vj nao ncomp shls ao_loc tao dm_cond nbas dm_atleast))"

definition CVHFrha4_lk_s2ij ::
  "('a::{plus,times,zero,one}, 'c, 'd) collab \<Rightarrow> 'a mem \<Rightarrow> 'a mem \<Rightarrow> 'a mem \<Rightarrow> int \<Rightarrow> int
     \<Rightarrow> ints \<Rightarrow> ints \<Rightarrow> ints \<Rightarrow> 'c \<Rightarrow> int \<Rightarrow> 'd \<Rightarrow> abort + 'a mem" where
  "CVHFrha4_lk_s2ij X eri dm vj nao ncomp shls ao_loc tao dm_cond nbas dm_atleast =
     (if \<not> NDEBUG X \<and> \<not> shls 0 \<ge> shls 1 then Inl (Assertion ''shls[0] >= shls[1]'')
      else if \<not> NDEBUG X \<and> \<not> shls 2 \<ge> shls 3 then Inl (Assertion ''shls[2] >= shls[3]'')
      else CVHFrha2kl_lk_s1ij X eri dm vj nao ncomp shls ao_loc tao dm_cond nbas dm_atleast)"

text \<open>
  The two component loops of \<^verbatim>\<open>CVHFrha4_jk_s1il\<close>. The first (lines 300 to 308, comment
  \<^verbatim>\<open>tjtikl\<close>) runs on the copies \<^verbatim>\<open>peri\<close>, \<^verbatim>\<open>pvk\<close> of the pointers and on \<^verbatim>\<open>p0213\<close>:
  \<^verbatim>\<open>
  for (ic = 0; ic < ncomp; ic++) {
          NPzset0(svk, djl);
          zgemv_(&TRANST, &dik, &djl, &Z1, p0213, &dik, sdm, &INC1, &Z1, svk, &INC1);
          CVHFtimerev_adbak_iT(svk, pvk, tao, jstart, jend, lstart, lend, nao);
          peri += dik*djl;
          p0213 += dik*djl;
          pvk += nao*nao;
  }
  \<close>
  The second (lines 315 to 324, comment \<^verbatim>\<open>tjtitltk\<close>) advances \<^verbatim>\<open>eri\<close> and \<^verbatim>\<open>vk\<close>:
  \<^verbatim>\<open>
  for (ic = 0; ic < ncomp; ic++) {
          NPzset0(svk, djk);
          for (l = 0; l < dl; l++) {
                  zgemv_(&TRANST, &di, &djk, &Z_1, eri, &di, sdm+l*di, &INC1, &Z1, svk, &INC1);
                  eri += dijk;
          }
          CVHFtimerev_adbak_blockT(svk, vk, tao, jstart, jend, kstart, kend, nao);
          vk += nao*nao;
  }
  \<close>
\<close>

definition rha4_jk_loop1 ::
  "('a::{plus,times,zero,one,uminus}, 'c, 'd) collab \<Rightarrow> 'a mem \<Rightarrow> 'a mem \<Rightarrow> ints \<Rightarrow> int \<Rightarrow> int
     \<Rightarrow> int \<Rightarrow> int \<Rightarrow> int \<Rightarrow> int \<Rightarrow> int \<Rightarrow> int
     \<Rightarrow> int \<times> int \<times> int \<times> 'a mem \<times> 'a mem \<Rightarrow> int \<times> int \<times> int \<times> 'a mem \<times> 'a mem" where
  "rha4_jk_loop1 X eri sdm tao nao ncomp jstart jend lstart lend dik djl =
     for_loop 0 ncomp
       (\<lambda>ic (peri, p0213, pvk, svk, vk).
          let svk = NPzset0 svk djl;
              svk = zgemv CHR ''T'' dik djl 1 (ptr_add eri p0213) dik sdm 1 1 svk 1;
              vk = through pvk
                     (\<lambda>mat. CVHFtimerev_adbak_iT X svk mat tao jstart jend lstart lend nao) vk
          in (peri + dik * djl, p0213 + dik * djl, pvk + nao * nao, svk, vk))"

definition rha4_jk_loop2 ::
  "('a::{plus,times,zero,one,uminus}, 'c, 'd) collab \<Rightarrow> 'a mem \<Rightarrow> 'a mem \<Rightarrow> ints \<Rightarrow> int \<Rightarrow> int
     \<Rightarrow> int \<Rightarrow> int \<Rightarrow> int \<Rightarrow> int \<Rightarrow> int \<Rightarrow> int \<Rightarrow> int \<Rightarrow> int
     \<Rightarrow> int \<times> int \<times> 'a mem \<times> 'a mem \<Rightarrow> int \<times> int \<times> 'a mem \<times> 'a mem" where
  "rha4_jk_loop2 X eri sdm tao nao ncomp jstart jend kstart kend di dl djk dijk =
     for_loop 0 ncomp
       (\<lambda>ic (eri_p, vk_p, svk, vk).
          let svk = NPzset0 svk djk;
              (eri_p, svk) =
                 for_loop 0 dl
                   (\<lambda>l (eri_p, svk).
                      (eri_p + dijk,
                       zgemv CHR ''T'' di djk (- 1) (ptr_add eri eri_p) di
                         (ptr_add sdm (l * di)) 1 1 svk 1))
                   (eri_p, svk);
              vk = through vk_p
                     (\<lambda>mat. CVHFtimerev_adbak_blockT X svk mat tao jstart jend kstart kend nao) vk
          in (eri_p, vk_p + nao * nao, svk, vk))"

definition CVHFrha4_jk_s1il ::
  "('a::{plus,times,zero,one,uminus}, 'c, 'd) collab \<Rightarrow> 'a mem \<Rightarrow> 'a mem \<Rightarrow> 'a mem \<Rightarrow> int \<Rightarrow> int
     \<Rightarrow> ints \<Rightarrow> ints \<Rightarrow> ints \<Rightarrow> 'c \<Rightarrow> int \<Rightarrow> 'd \<Rightarrow> abort + 'a mem" where
  "CVHFrha4_jk_s1il X eri dm vk nao ncomp shls ao_loc tao dm_cond nbas dm_atleast =
     (if \<not> NDEBUG X \<and> \<not> shls 0 \<ge> shls 1 then Inl (Assertion ''shls[0] >= shls[1]'')
      else if \<not> NDEBUG X \<and> \<not> shls 2 \<ge> shls 3 then Inl (Assertion ''shls[2] >= shls[3]'')
      else
        case CVHFrha2kl_jk_s1il X eri dm vk nao ncomp shls ao_loc tao dm_cond nbas dm_atleast of
          Inl e \<Rightarrow> Inl e
        | Inr vk \<Rightarrow>
            if shls 0 = shls 1 then Inr vk
            else
              LOCIJKL shls ao_loc
                (\<lambda>istart jstart kstart lstart iend jend kend lend di dj dk dl.
                   let djk = dj * dk;
                       dik = di * dk;
                       djl = dj * dl;
                       dijk = dik * dj;
                       p0213 = dik * djl * ncomp;
                       sdm = CVHFtimerev_iT X (uninit_sdm X) dm tao istart iend kstart kend nao;
                       (peri, p0213, pvk, svk, vk) =
                          rha4_jk_loop1 X eri sdm tao nao ncomp jstart jend lstart lend dik djl
                            (0, p0213, 0, uninit_svk X, vk)
                   in if shls 2 = shls 3 then Inr vk
                      else
                        let sdm = CVHFtimerev_blockT X sdm dm tao istart iend lstart lend nao;
                            (eri_p, vk_p, svk, vk) =
                               rha4_jk_loop2 X eri sdm tao nao ncomp jstart jend kstart kend
                                 di dl djk dijk (0, 0, svk, vk)
                        in Inr vk))"

text \<open>
  The two component loops of \<^verbatim>\<open>CVHFrha4_li_s1kj\<close>, lines 361 to 369 and 376 to 385:
  \<^verbatim>\<open>
  for (ic = 0; ic < ncomp; ic++) {
          NPzset0(svk, dik);
          zgemv_(&TRANSN, &dik, &djl, &Z1, p0213, &dik, sdm, &INC1, &Z1, svk, &INC1);
          CVHFtimerev_adbak_j(svk, pvk, tao, kstart, kend, istart, iend, nao);
          peri += dik*djl;
          p0213 += dik*djl;
          pvk += nao*nao;
  }
  \<close>
  \<^verbatim>\<open>
  for (ic = 0; ic < ncomp; ic++) {
          NPzset0(svk, dil);
          for (l = 0; l < dl; l++) {
                  zgemv_(&TRANSN, &di, &djk, &Z_1, eri, &di, sdm, &INC1, &Z1, svk+l*di, &INC1);
                  eri += dijk;
          }
          CVHFtimerev_adbak_block(svk, vk, tao, lstart, lend, istart, iend, nao);
          vk += nao*nao;
  }
  \<close>
\<close>

definition rha4_li_loop1 ::
  "('a::{plus,times,zero,one,uminus}, 'c, 'd) collab \<Rightarrow> 'a mem \<Rightarrow> 'a mem \<Rightarrow> ints \<Rightarrow> int \<Rightarrow> int
     \<Rightarrow> int \<Rightarrow> int \<Rightarrow> int \<Rightarrow> int \<Rightarrow> int \<Rightarrow> int
     \<Rightarrow> int \<times> int \<times> int \<times> 'a mem \<times> 'a mem \<Rightarrow> int \<times> int \<times> int \<times> 'a mem \<times> 'a mem" where
  "rha4_li_loop1 X eri sdm tao nao ncomp kstart kend istart iend dik djl =
     for_loop 0 ncomp
       (\<lambda>ic (peri, p0213, pvk, svk, vk).
          let svk = NPzset0 svk dik;
              svk = zgemv CHR ''N'' dik djl 1 (ptr_add eri p0213) dik sdm 1 1 svk 1;
              vk = through pvk
                     (\<lambda>mat. CVHFtimerev_adbak_j X svk mat tao kstart kend istart iend nao) vk
          in (peri + dik * djl, p0213 + dik * djl, pvk + nao * nao, svk, vk))"

definition rha4_li_loop2 ::
  "('a::{plus,times,zero,one,uminus}, 'c, 'd) collab \<Rightarrow> 'a mem \<Rightarrow> 'a mem \<Rightarrow> ints \<Rightarrow> int \<Rightarrow> int
     \<Rightarrow> int \<Rightarrow> int \<Rightarrow> int \<Rightarrow> int \<Rightarrow> int \<Rightarrow> int \<Rightarrow> int \<Rightarrow> int \<Rightarrow> int
     \<Rightarrow> int \<times> int \<times> 'a mem \<times> 'a mem \<Rightarrow> int \<times> int \<times> 'a mem \<times> 'a mem" where
  "rha4_li_loop2 X eri sdm tao nao ncomp lstart lend istart iend di dl djk dijk dil =
     for_loop 0 ncomp
       (\<lambda>ic (eri_p, vk_p, svk, vk).
          let svk = NPzset0 svk dil;
              (eri_p, svk) =
                 for_loop 0 dl
                   (\<lambda>l (eri_p, svk).
                      (eri_p + dijk,
                       through (l * di)
                         (\<lambda>y. zgemv CHR ''N'' di djk (- 1) (ptr_add eri eri_p) di sdm 1 1 y 1)
                         svk))
                   (eri_p, svk);
              vk = through vk_p
                     (\<lambda>mat. CVHFtimerev_adbak_block X svk mat tao lstart lend istart iend nao) vk
          in (eri_p, vk_p + nao * nao, svk, vk))"

definition CVHFrha4_li_s1kj ::
  "('a::{plus,times,zero,one,uminus}, 'c, 'd) collab \<Rightarrow> 'a mem \<Rightarrow> 'a mem \<Rightarrow> 'a mem \<Rightarrow> int \<Rightarrow> int
     \<Rightarrow> ints \<Rightarrow> ints \<Rightarrow> ints \<Rightarrow> 'c \<Rightarrow> int \<Rightarrow> 'd \<Rightarrow> abort + 'a mem" where
  "CVHFrha4_li_s1kj X eri dm vk nao ncomp shls ao_loc tao dm_cond nbas dm_atleast =
     (if \<not> NDEBUG X \<and> \<not> shls 0 \<ge> shls 1 then Inl (Assertion ''shls[0] >= shls[1]'')
      else if \<not> NDEBUG X \<and> \<not> shls 2 \<ge> shls 3 then Inl (Assertion ''shls[2] >= shls[3]'')
      else
        case CVHFrha2kl_li_s1kj X eri dm vk nao ncomp shls ao_loc tao dm_cond nbas dm_atleast of
          Inl e \<Rightarrow> Inl e
        | Inr vk \<Rightarrow>
            if shls 0 = shls 1 then Inr vk
            else
              LOCIJKL shls ao_loc
                (\<lambda>istart jstart kstart lstart iend jend kend lend di dj dk dl.
                   let dil = di * dl;
                       djk = dj * dk;
                       dik = di * dk;
                       djl = dj * dl;
                       dijk = dik * dj;
                       p0213 = dik * djl * ncomp;
                       sdm = CVHFtimerev_j X (uninit_sdm X) dm tao lstart lend jstart jend nao;
                       (peri, p0213, pvk, svk, vk) =
                          rha4_li_loop1 X eri sdm tao nao ncomp kstart kend istart iend dik djl
                            (0, p0213, 0, uninit_svk X, vk)
                   in if shls 2 = shls 3 then Inr vk
                      else
                        let sdm = CVHFtimerev_block X sdm dm tao kstart kend jstart jend nao;
                            (eri_p, vk_p, svk, vk) =
                               rha4_li_loop2 X eri sdm tao nao ncomp lstart lend istart iend
                                 di dl djk dijk dil (0, 0, svk, vk)
                        in Inr vk))"

section \<open>A concrete instance of the collaborators\<close>

text \<open>
  To run the kernels on concrete inputs the build and the collaborators need values. The
  instance \<open>demo\<close> is the simplest one: the build is the default one of the repository
  (\<^verbatim>\<open>NDEBUG\<close> defined), the time-reversal helpers copy a block of the matrix in row-major
  order and add a block back (the map \<open>tao\<close> is ignored, as if every AO were its own
  partner), the delegated J-build kernel \<^verbatim>\<open>CVHFrs1_lk_s1ij\<close> is the plain contraction
  \<open>vj[i,j] += sum_kl eri[i,j,k,l] * dm[l,k]\<close>, the other delegated kernels contribute
  nothing, and fresh local arrays hold zeros. It is used to evaluate the kernels at
  concrete inputs only; no general result depends on it. The build with assertions
  enabled is \<open>demo\<lparr>NDEBUG := False\<rparr>\<close>.
\<close>

definition demo_timerev :: "'a timerev" where
  "demo_timerev block mat tao istart iend jstart jend nao =
     (\<lambda>p. if 0 \<le> p \<and> p < (iend - istart) * (jend - jstart)
          then mat ((istart + p div (jend - jstart)) * nao + (jstart + p mod (jend - jstart)))
          else block p)"

definition demo_adbak :: "('a::plus) timerev" where
  "demo_adbak block mat tao istart iend jstart jend nao =
     adbak_blockT mat block nao istart iend jstart jend"

definition demo_rs1_lk_s1ij :: "('a::{plus,times,zero,one}, 'c, 'd) rs_kernel" where
  "demo_rs1_lk_s1ij eri dm vj nao ncomp shls ao_loc tao dm_cond nbas dm_atleast =
     LOCIJKL shls ao_loc
       (\<lambda>istart jstart kstart lstart iend jend kend lend di dj dk dl.
          let sdm = demo_timerev (\<lambda>p. 0) dm tao lstart lend kstart kend nao;
              (eri_p, vj_p, svj, vj) =
                 rha2kl_lk_loop eri sdm nao ncomp istart iend jstart jend (di * dj) (dk * dl)
                   (0, 0, (\<lambda>p. 0), vj)
          in Some vj)"

definition demo_rs_none :: "('a, 'c, 'd) rs_kernel" where
  "demo_rs_none eri dm v nao ncomp shls ao_loc tao dm_cond nbas dm_atleast = Some v"

definition demo :: "('a::{plus,times,zero,one}, 'c, 'd) collab" where
  "demo = \<lparr> NDEBUG = True,
      CVHFrs1_ji_s1kl = demo_rs_none, CVHFrs1_lk_s1ij = demo_rs1_lk_s1ij,
      CVHFrs1_jk_s1il = demo_rs_none, CVHFrs1_li_s1kj = demo_rs_none,
      CVHFrs2ij_ji_s1kl = demo_rs_none, CVHFrs2ij_lk_s2ij = demo_rs_none,
      CVHFrs2ij_jk_s1il = demo_rs_none, CVHFrs2ij_li_s1kj = demo_rs_none,
      CVHFtimerev_ijminus = demo_timerev, CVHFtimerev_jT = demo_timerev,
      CVHFtimerev_i = demo_timerev, CVHFtimerev_iT = demo_timerev,
      CVHFtimerev_j = demo_timerev, CVHFtimerev_blockT = demo_timerev,
      CVHFtimerev_block = demo_timerev,
      CVHFtimerev_adbak_jT = demo_adbak, CVHFtimerev_adbak_i = demo_adbak,
      CVHFtimerev_adbak_iT = demo_adbak, CVHFtimerev_adbak_j = demo_adbak,
      CVHFtimerev_adbak_blockT = demo_adbak, CVHFtimerev_adbak_block = demo_adbak,
      uninit_sdm = (\<lambda>p. 0), uninit_svk = (\<lambda>p. 0) \<rparr>"

text \<open>The array \<^verbatim>\<open>shls = {i, j, k, l}\<close>, and the offsets of a basis with one AO per shell.\<close>

definition shells :: "int \<Rightarrow> int \<Rightarrow> int \<Rightarrow> int \<Rightarrow> ints" where
  "shells i j k l = (\<lambda>p. if p = 0 then i else if p = 1 then j else if p = 2 then k else l)"

definition one_ao_each :: ints where
  "one_ao_each = (\<lambda>s. s)"

section \<open>Invariants\<close>

text \<open>
  The state of the outer loop of \<^verbatim>\<open>adbak_blockT\<close> before row \<open>k\<close>: the rows before \<open>k\<close>
  have received their column of \<open>blk\<close>, and nothing else has changed.
\<close>

definition adbak_inv ::
  "('a::plus) mem \<Rightarrow> 'a mem \<Rightarrow> int \<Rightarrow> int \<Rightarrow> int \<Rightarrow> int \<Rightarrow> int \<Rightarrow> int \<Rightarrow> 'a mem \<times> int \<times> int \<Rightarrow> bool" where
  "adbak_inv a blk n istart iend jstart jend k s =
     (case s of (a', pa, i1) \<Rightarrow>
        pa = k * n \<and> i1 = k - istart \<and>
        (\<forall>i j. istart \<le> i \<and> i < k \<and> jstart \<le> j \<and> j < jend \<longrightarrow>
           a' (i * n + j) = a (i * n + j) + blk ((j - jstart) * (iend - istart) + (i - istart))) \<and>
        (\<forall>q. (\<forall>i j. istart \<le> i \<and> i < k \<and> jstart \<le> j \<and> j < jend \<longrightarrow> q \<noteq> i * n + j)
           \<longrightarrow> a' q = a q))"


section \<open>Two runs of a kernel\<close>

text \<open>
  Two memories agree on the cells \<open>lo, ..., hi - 1\<close>.
\<close>

definition agree_on :: "int \<Rightarrow> int \<Rightarrow> 'a mem \<Rightarrow> 'a mem \<Rightarrow> bool" where
  "agree_on lo hi f g = (\<forall>p. lo \<le> p \<and> p < hi \<longrightarrow> f p = g p)"

text \<open>
  A back-distribution helper \<open>H block mat\<close> stays within the \<open>n\<close> by \<open>n\<close> matrix it is
  handed: inside the matrix its result depends on the first \<open>len\<close> cells of the block and
  on the matrix only, and it changes nothing outside the matrix.
\<close>

definition mat_local :: "('a mem \<Rightarrow> 'a mem \<Rightarrow> 'a mem) \<Rightarrow> int \<Rightarrow> int \<Rightarrow> bool" where
  "mat_local H n len =
     ((\<forall>blk blk' m m'. agree_on 0 len blk blk' \<and> agree_on 0 (n * n) m m' \<longrightarrow>
          agree_on 0 (n * n) (H blk m) (H blk' m')) \<and>
      (\<forall>blk m q. \<not> (0 \<le> q \<and> q < n * n) \<longrightarrow> H blk m q = m q))"

section \<open>The helper of the J-build kernel, from the specification\<close>


section \<open>Counted loops: unfolding and invariants\<close>

lemma for_loop_done: "\<not> i < n \<Longrightarrow> for_loop i n body s = s"
  by (simp add: for_loop.simps)

lemma for_loop_step: "i < n \<Longrightarrow> for_loop i n body s = for_loop (i + 1) n body (body i s)"
  by (simp add: for_loop.simps[of i])

lemma for_loop_rule:
  assumes "I i s"
    and "\<And>k s. i \<le> k \<Longrightarrow> k < n \<Longrightarrow> I k s \<Longrightarrow> I (k + 1) (body k s)"
  shows "I (max i n) (for_loop i n body s)"
  using assms
proof (induction "nat (n - i)" arbitrary: i s)
  case 0
  then show ?case by (simp add: for_loop_done max_def)
next
  case (Suc d)
  then have lt: "i < n" by linarith
  have "I (max (i + 1) n) (for_loop (i + 1) n body (body i s))"
  proof (rule Suc.hyps(1))
    show "d = nat (n - (i + 1))" using Suc.hyps(2) by linarith
    show "I (i + 1) (body i s)" using Suc.prems lt by simp
    show "\<And>k s. i + 1 \<le> k \<Longrightarrow> k < n \<Longrightarrow> I k s \<Longrightarrow> I (k + 1) (body k s)"
      using Suc.prems(2) by simp
  qed
  with lt show ?case by (simp add: for_loop_step max_def)
qed

lemma for_loop_rel:
  assumes "R i s t"
    and "\<And>k s t. i \<le> k \<Longrightarrow> k < n \<Longrightarrow> R k s t \<Longrightarrow> R (k + 1) (f k s) (g k t)"
  shows "R (max i n) (for_loop i n f s) (for_loop i n g t)"
  using assms
proof (induction "nat (n - i)" arbitrary: i s t)
  case 0
  then show ?case by (simp add: for_loop_done max_def)
next
  case (Suc d)
  then have lt: "i < n" by linarith
  have "R (max (i + 1) n) (for_loop (i + 1) n f (f i s)) (for_loop (i + 1) n g (g i t))"
  proof (rule Suc.hyps(1))
    show "d = nat (n - (i + 1))" using Suc.hyps(2) by linarith
    show "R (i + 1) (f i s) (g i t)" using Suc.prems lt by simp
    show "\<And>k s t. i + 1 \<le> k \<Longrightarrow> k < n \<Longrightarrow> R k s t \<Longrightarrow> R (k + 1) (f k s) (g k t)"
      using Suc.prems(2) by simp
  qed
  with lt show ?case by (simp add: for_loop_step max_def)
qed

lemma dot_cong:
  fixes f g :: "int \<Rightarrow> 'a::{plus,zero}"
  assumes "\<And>c. 0 \<le> c \<Longrightarrow> c < n \<Longrightarrow> f c = g c"
  shows "dot n f = dot n g"
proof -
  have "max 0 n = max 0 n \<and> for_loop 0 n (\<lambda>c acc. acc + f c) 0 = for_loop 0 n (\<lambda>c acc. acc + g c) 0"
    by (rule for_loop_rel[where R = "\<lambda>k s t. k = k \<and> s = t"]) (use assms in auto)
  then show ?thesis by (simp add: dot_def)
qed

text \<open>Row-major indices do not alias.\<close>

lemma idx2_inj:
  fixes n :: int
  assumes "0 \<le> j" "j < n" "0 \<le> j'" "j' < n" "i * n + j = i' * n + j'"
  shows "i = i' \<and> j = j'"
proof -
  have n: "0 < n" using assms by linarith
  have "(i * n + j) div n = i" "(i' * n + j') div n = i'"
    using assms(1-4) n by (simp_all add: div_pos_pos_trivial)
  then have "i = i'" using assms(5) by metis
  then show ?thesis using assms(5) by simp
qed

text \<open>The inner loop of adbak_blockT: one row.\<close>

lemma adbak_row:
  fixes a :: "('a::plus) mem"
  shows "for_loop j jend (\<lambda>j (a, j1). (a(pa + j := a (pa + j) + blk (j1 * m + i1)), j1 + 1)) (a, j1) =
     ((\<lambda>q. if pa + j \<le> q \<and> q < pa + jend then a q + blk ((j1 + (q - pa - j)) * m + i1) else a q),
      j1 + max 0 (jend - j))"
proof (induction "nat (jend - j)" arbitrary: j a j1)
  case 0
  then show ?case by (auto simp: for_loop_done fun_eq_iff)
next
  case (Suc d)
  then have lt: "j < jend" by linarith
  have d: "d = nat (jend - (j + 1))" using Suc.hyps(2) by linarith
  show ?case
    unfolding for_loop_step[OF lt] 
    apply (simp add: Suc.hyps(1)[OF d])
    using lt by (auto simp: fun_eq_iff algebra_simps)
qed

lemma adbak_blockT_rows:
  fixes a :: "('a::plus) mem"
  shows "adbak_blockT a blk n istart iend jstart jend =
     fst (for_loop istart iend
       (\<lambda>i (a, pa, i1).
          ((\<lambda>q. if pa + jstart \<le> q \<and> q < pa + jend
                then a q + blk ((q - pa - jstart) * (iend - istart) + i1) else a q),
           pa + n, i1 + 1))
       (a, istart * n, 0))"
  by (simp add: adbak_blockT_def adbak_row Let_def cong: if_cong)

lemma adbak_inv_step:
  fixes a :: "('a::plus) mem"
  assumes j0: "0 \<le> jstart" and jn: "jend \<le> n"
    and k: "istart \<le> k" "k < iend"
    and inv: "adbak_inv a blk n istart iend jstart jend k (a', pa, i1)"
  shows "adbak_inv a blk n istart iend jstart jend (k + 1)
     ((\<lambda>q. if pa + jstart \<le> q \<and> q < pa + jend
            then a' q + blk ((q - pa - jstart) * (iend - istart) + i1) else a' q),
      pa + n, i1 + 1)"
proof -
  from inv have pa: "pa = k * n" and i1: "i1 = k - istart"
    and upd: "\<And>i j. istart \<le> i \<Longrightarrow> i < k \<Longrightarrow> jstart \<le> j \<Longrightarrow> j < jend \<Longrightarrow>
           a' (i * n + j) = a (i * n + j) + blk ((j - jstart) * (iend - istart) + (i - istart))"
    and frame: "\<And>q. (\<forall>i j. istart \<le> i \<and> i < k \<and> jstart \<le> j \<and> j < jend \<longrightarrow> q \<noteq> i * n + j)
           \<Longrightarrow> a' q = a q"
    by (auto simp: adbak_inv_def)
  let ?a'' = "\<lambda>q. if pa + jstart \<le> q \<and> q < pa + jend
            then a' q + blk ((q - pa - jstart) * (iend - istart) + i1) else a' q"
  have in_row: "\<And>i j. jstart \<le> j \<Longrightarrow> j < jend \<Longrightarrow>
      (pa + jstart \<le> i * n + j \<and> i * n + j < pa + jend) = (i = k)"
  proof -
    fix i j assume j: "jstart \<le> j" "j < jend"
    show "(pa + jstart \<le> i * n + j \<and> i * n + j < pa + jend) = (i = k)"
    proof
      assume r: "pa + jstart \<le> i * n + j \<and> i * n + j < pa + jend"
      define j' where "j' = i * n + j - k * n"
      have "0 \<le> j'" "j' < n" "i * n + j = k * n + j'"
        using r j0 jn by (auto simp: j'_def pa)
      with idx2_inj[of j n j' i k] j j0 jn show "i = k" by auto
    next
      assume "i = k" then show "pa + jstart \<le> i * n + j \<and> i * n + j < pa + jend"
        using j by (simp add: pa)
    qed
  qed
  have p1: "?a'' (i * n + j) = a (i * n + j) + blk ((j - jstart) * (iend - istart) + (i - istart))"
    if "istart \<le> i" "i < k + 1" "jstart \<le> j" "j < jend" for i j
  proof (cases "i = k")
    case True
    have "a' (k * n + j) = a (k * n + j)"
    proof (rule frame, intro allI impI)
      fix i' j' assume "istart \<le> i' \<and> i' < k \<and> jstart \<le> j' \<and> j' < jend"
      then show "k * n + j \<noteq> i' * n + j'"
        using idx2_inj[of j n j' k i'] that j0 jn by auto
    qed
    then show ?thesis using that True in_row[of j i] by (simp add: pa i1)
  next
    case False
    then have "i < k" using that by simp
    moreover have "\<not> (pa + jstart \<le> i * n + j \<and> i * n + j < pa + jend)"
      using in_row[OF that(3,4), of i] False by blast
    then have "?a'' (i * n + j) = a' (i * n + j)"
      by (simp only: if_False)
    ultimately show ?thesis using that upd[of i j] by simp
  qed
  have p2: "?a'' q = a q"
    if "\<forall>i j. istart \<le> i \<and> i < k + 1 \<and> jstart \<le> j \<and> j < jend \<longrightarrow> q \<noteq> i * n + j" for q
  proof -
    have "\<not> (pa + jstart \<le> q \<and> q < pa + jend)"
    proof
      assume r: "pa + jstart \<le> q \<and> q < pa + jend"
      have "q = k * n + (q - k * n)" by simp
      moreover have "jstart \<le> q - k * n" "q - k * n < jend" using r by (auto simp: pa)
      ultimately show False using that k by (metis zless_add1_eq)
    qed
    moreover have "a' q = a q" by (rule frame) (use that in auto)
    ultimately show ?thesis by auto
  qed
  show ?thesis
    unfolding adbak_inv_def prod.case
  proof (intro conjI allI impI)
    show "pa + n = (k + 1) * n" by (simp add: pa algebra_simps)
    show "i1 + 1 = k + 1 - istart" by (simp add: i1)
  next
    fix i j assume "istart \<le> i \<and> i < k + 1 \<and> jstart \<le> j \<and> j < jend"
    then show "?a'' (i * n + j) = a (i * n + j) + blk ((j - jstart) * (iend - istart) + (i - istart))"
      using p1 by blast
  next
    fix q assume "\<forall>i j. istart \<le> i \<and> i < k + 1 \<and> jstart \<le> j \<and> j < jend \<longrightarrow> q \<noteq> i * n + j"
    then show "?a'' q = a q" by (rule p2)
  qed
qed

lemma adbak_blockT_inv:
  fixes a :: "('a::plus) mem"
  assumes "0 \<le> jstart" "jend \<le> n"
  shows "\<exists>pa i1. adbak_inv a blk n istart iend jstart jend (max istart iend)
           (adbak_blockT a blk n istart iend jstart jend, pa, i1)"
proof -
  let ?body = "\<lambda>i (a, pa, i1).
          ((\<lambda>q. if pa + jstart \<le> q \<and> q < pa + jend
                then a q + blk ((q - pa - jstart) * (iend - istart) + i1) else a q),
           pa + n, i1 + (1::int))"
  have "adbak_inv a blk n istart iend jstart jend (max istart iend)
          (for_loop istart iend ?body (a, istart * n, 0))"
  proof (rule for_loop_rule)
    show "adbak_inv a blk n istart iend jstart jend istart (a, istart * n, 0)"
      by (auto simp: adbak_inv_def)
  next
    fix k s assume "istart \<le> k" "k < iend" "adbak_inv a blk n istart iend jstart jend k s"
    then show "adbak_inv a blk n istart iend jstart jend (k + 1) (?body k s)"
      using adbak_inv_step[OF assms] by (cases s) auto
  qed
  then show ?thesis
    by (cases "for_loop istart iend ?body (a, istart * n, 0)") (auto simp: adbak_blockT_rows)
qed

lemma adbak_blockT_in:
  fixes a :: "('a::plus) mem"
  assumes "0 \<le> jstart" "jend \<le> n" "istart \<le> i" "i < iend" "jstart \<le> j" "j < jend"
  shows "adbak_blockT a blk n istart iend jstart jend (i * n + j) =
         a (i * n + j) + blk ((j - jstart) * (iend - istart) + (i - istart))"
  using adbak_blockT_inv[OF assms(1,2), of a blk istart iend] assms(3-)
  by (auto simp: adbak_inv_def max_def split: if_splits)

lemma adbak_blockT_out:
  fixes a :: "('a::plus) mem"
  assumes "0 \<le> jstart" "jend \<le> n"
    and "\<And>i j. istart \<le> i \<Longrightarrow> i < iend \<Longrightarrow> jstart \<le> j \<Longrightarrow> j < jend \<Longrightarrow> q \<noteq> i * n + j"
  shows "adbak_blockT a blk n istart iend jstart jend q = a q"
proof -
  obtain pa i1 where inv: "adbak_inv a blk n istart iend jstart jend (max istart iend)
           (adbak_blockT a blk n istart iend jstart jend, pa, i1)"
    using adbak_blockT_inv[OF assms(1,2)] by blast
  have "\<forall>i j. istart \<le> i \<and> i < max istart iend \<and> jstart \<le> j \<and> j < jend \<longrightarrow> q \<noteq> i * n + j"
    using assms(3) by (auto simp: max_def split: if_splits)
  with inv show ?thesis by (simp add: adbak_inv_def)
qed


section \<open>The back-distribution accumulates\<close>

text \<open>
  Claim C6. The back-distribution step accumulates and never overwrites:
  \<open>adbak_blockT a blk n istart iend jstart jend\<close> sets \<open>a[i*n+j]\<close> to its old value plus
  \<open>blk[(j-jstart)*(iend-istart)+(i-istart)]\<close> for every \<open>istart \<le> i < iend\<close> and
  \<open>jstart \<le> j < jend\<close>, and leaves every entry of \<open>a\<close> outside that index rectangle
  unchanged. The matrix \<open>a\<close> has \<open>n\<close> columns, so the columns \<open>jstart..jend\<close> lie within
  \<open>0..n\<close>; this is what makes \<open>i*n+j\<close> the entry in row \<open>i\<close> and column \<open>j\<close>. The addition
  is the one of the scalar type, whatever it is.
\<close>

theorem adbak_blockT_accumulates:
  fixes a :: "('a::plus) mem"
  assumes "0 \<le> jstart" and "jend \<le> n"
  shows "(\<forall>i j. istart \<le> i \<and> i < iend \<and> jstart \<le> j \<and> j < jend \<longrightarrow>
            adbak_blockT a blk n istart iend jstart jend (i * n + j) =
              a (i * n + j) + blk ((j - jstart) * (iend - istart) + (i - istart))) \<and>
         (\<forall>q. (\<forall>i j. istart \<le> i \<and> i < iend \<and> jstart \<le> j \<and> j < jend \<longrightarrow> q \<noteq> i * n + j) \<longrightarrow>
            adbak_blockT a blk n istart iend jstart jend q = a q)"
  using adbak_blockT_in[OF assms] adbak_blockT_out[OF assms] by blast

theorem adbak_blockT_accumulates_witness:
  "(0::int) \<le> 0 \<and> (2::int) \<le> 3 \<and>
   adbak_blockT (\<lambda>q. q) (\<lambda>p. 10 + p) 3 1 3 0 2 (2 * 3 + 1) =
     (2 * 3 + 1) + (10 + ((1 - 0) * (3 - 1) + (2 - 1)) :: int) \<and>
   adbak_blockT (\<lambda>q. q) (\<lambda>p. 10 + p) 3 1 3 0 2 5 = (5::int)"
proof -
  have h: "(0::int) \<le> 0" "(2::int) \<le> 3" by simp_all
  note T = adbak_blockT_accumulates[OF h, of 1 3 "\<lambda>q. q" "\<lambda>p. 10 + p"]
  have "adbak_blockT (\<lambda>q. q) (\<lambda>p. 10 + p) 3 1 3 0 2 (2 * 3 + 1) =
     (2 * 3 + 1) + (10 + ((1 - 0) * (3 - 1) + (2 - 1)) :: int)"
    using T[THEN conjunct1, rule_format, of 2 1] by simp
  moreover have "\<forall>i j. 1 \<le> i \<and> i < 3 \<and> 0 \<le> j \<and> j < 2 \<longrightarrow> (5::int) \<noteq> i * 3 + j"
    by presburger
  then have "adbak_blockT (\<lambda>q. q) (\<lambda>p. 10 + p) 3 1 3 0 2 5 = (5::int)"
    using T[THEN conjunct2, rule_format, of 5] by blast
  ultimately show ?thesis by simp
qed

section \<open>Delegation, assertions and collapsed pairs\<close>

lemma callee_case [simp]: "(case callee r of Inl e \<Rightarrow> Inl e | Inr v \<Rightarrow> Inr v) = callee r"
  by (simp split: sum.splits)

lemma callee_not_assertion [simp]: "callee r \<noteq> Inl (Assertion msg)"
  by (simp add: callee_def split: option.splits)




text \<open>
  Claim C10. The s1-mode rha kernels are equal to the corresponding rs kernels for every
  input (\<^verbatim>\<open>CVHFrha1_ji_s1kl = CVHFrs1_ji_s1kl\<close>, \<^verbatim>\<open>CVHFrha1_lk_s1ij = CVHFrs1_lk_s1ij\<close>,
  \<^verbatim>\<open>CVHFrha1_jk_s1il = CVHFrs1_jk_s1il\<close>, \<^verbatim>\<open>CVHFrha1_li_s1kj = CVHFrs1_li_s1kj\<close>), and
  under the preconditions \<open>shls[0] \<ge> shls[1]\<close> and \<open>shls[2] \<ge> shls[3]\<close> the s4-mode J-build
  kernels equal their s2 counterparts (\<^verbatim>\<open>CVHFrha4_ji_s2kl = CVHFrs2ij_ji_s1kl\<close> and
  \<^verbatim>\<open>CVHFrha4_lk_s2ij = CVHFrha2kl_lk_s1ij\<close>): no extra term is added in these modes. The
  outcome of a kernel that only delegates is the outcome of the delegated call.
\<close>

theorem rha_s1_and_s4_J_kernels_delegate:
  "CVHFrha1_ji_s1kl X eri dm v nao ncomp shls ao_loc tao dm_cond nbas dm_atleast =
     callee (CVHFrs1_ji_s1kl X eri dm v nao ncomp shls ao_loc tao dm_cond nbas dm_atleast) \<and>
   CVHFrha1_lk_s1ij X eri dm v nao ncomp shls ao_loc tao dm_cond nbas dm_atleast =
     callee (CVHFrs1_lk_s1ij X eri dm v nao ncomp shls ao_loc tao dm_cond nbas dm_atleast) \<and>
   CVHFrha1_jk_s1il X eri dm v nao ncomp shls ao_loc tao dm_cond nbas dm_atleast =
     callee (CVHFrs1_jk_s1il X eri dm v nao ncomp shls ao_loc tao dm_cond nbas dm_atleast) \<and>
   CVHFrha1_li_s1kj X eri dm v nao ncomp shls ao_loc tao dm_cond nbas dm_atleast =
     callee (CVHFrs1_li_s1kj X eri dm v nao ncomp shls ao_loc tao dm_cond nbas dm_atleast) \<and>
   (shls 0 \<ge> shls 1 \<and> shls 2 \<ge> shls 3 \<longrightarrow>
      CVHFrha4_ji_s2kl X eri dm v nao ncomp shls ao_loc tao dm_cond nbas dm_atleast =
        callee (CVHFrs2ij_ji_s1kl X eri dm v nao ncomp shls ao_loc tao dm_cond nbas dm_atleast) \<and>
      CVHFrha4_lk_s2ij X eri dm v nao ncomp shls ao_loc tao dm_cond nbas dm_atleast =
        CVHFrha2kl_lk_s1ij X eri dm v nao ncomp shls ao_loc tao dm_cond nbas dm_atleast)"
  by (simp add: CVHFrha1_ji_s1kl_def CVHFrha1_lk_s1ij_def CVHFrha1_jk_s1il_def
      CVHFrha1_li_s1kj_def CVHFrha4_ji_s2kl_def CVHFrha4_lk_s2ij_def)

theorem rha_s1_and_s4_J_kernels_delegate_witness:
  "shells 1 0 1 0 0 \<ge> shells 1 0 1 0 1 \<and> shells 1 0 1 0 2 \<ge> shells 1 0 1 0 3 \<and>
   CVHFrha4_ji_s2kl (demo :: (complex, unit, unit) collab) (\<lambda>p. 2) (\<lambda>p. 3) (\<lambda>p. 0) 2 1
       (shells 1 0 1 0) one_ao_each (\<lambda>p. 1) () 2 () =
     callee (CVHFrs2ij_ji_s1kl demo (\<lambda>p. 2) (\<lambda>p. 3) (\<lambda>p. 0) 2 1
       (shells 1 0 1 0) one_ao_each (\<lambda>p. 1) () 2 ()) \<and>
   CVHFrha4_lk_s2ij (demo :: (complex, unit, unit) collab) (\<lambda>p. 2) (\<lambda>p. 3) (\<lambda>p. 0) 2 1
       (shells 1 0 1 0) one_ao_each (\<lambda>p. 1) () 2 () =
     CVHFrha2kl_lk_s1ij demo (\<lambda>p. 2) (\<lambda>p. 3) (\<lambda>p. 0) 2 1
       (shells 1 0 1 0) one_ao_each (\<lambda>p. 1) () 2 ()"
proof -
  have h: "shells 1 0 1 0 0 \<ge> shells 1 0 1 0 1 \<and> shells 1 0 1 0 2 \<ge> shells 1 0 1 0 3"
    by (simp add: shells_def)
  show ?thesis
    using h rha_s1_and_s4_J_kernels_delegate[where shls = "shells 1 0 1 0"
        and X = "demo :: (complex, unit, unit) collab" and eri = "\<lambda>p. 2" and dm = "\<lambda>p. 3"
        and v = "\<lambda>p. 0" and nao = 2 and ncomp = 1 and ao_loc = one_ao_each and tao = "\<lambda>p. 1"
        and dm_cond = "()" and nbas = 2 and dm_atleast = "()"]
    by blast
qed

text \<open>
  Claim C5. For every input with \<open>shls[2] = shls[3]\<close> (collapsed k,l axis pair) each rha2kl
  kernel reduces exactly to the corresponding no-symmetry kernel: \<^verbatim>\<open>CVHFrha2kl_lk_s1ij\<close>
  computes exactly \<^verbatim>\<open>CVHFrs1_lk_s1ij\<close>, \<^verbatim>\<open>CVHFrha2kl_jk_s1il\<close> exactly
  \<^verbatim>\<open>CVHFrs1_jk_s1il\<close> and \<^verbatim>\<open>CVHFrha2kl_li_s1kj\<close> exactly \<^verbatim>\<open>CVHFrs1_li_s1kj\<close>, the extra
  time-reversal term being skipped; likewise the rha4 K-build kernels skip their extra
  terms when \<open>shls[0] = shls[1]\<close>, which leaves the rha2kl kernel they call first.
\<close>

theorem rha2kl_collapsed_kl_is_rs1:
  "(shls 2 = shls 3 \<longrightarrow>
      CVHFrha2kl_lk_s1ij X eri dm v nao ncomp shls ao_loc tao dm_cond nbas dm_atleast =
        callee (CVHFrs1_lk_s1ij X eri dm v nao ncomp shls ao_loc tao dm_cond nbas dm_atleast) \<and>
      CVHFrha2kl_jk_s1il X eri dm v nao ncomp shls ao_loc tao dm_cond nbas dm_atleast =
        callee (CVHFrs1_jk_s1il X eri dm v nao ncomp shls ao_loc tao dm_cond nbas dm_atleast) \<and>
      CVHFrha2kl_li_s1kj X eri dm v nao ncomp shls ao_loc tao dm_cond nbas dm_atleast =
        callee (CVHFrs1_li_s1kj X eri dm v nao ncomp shls ao_loc tao dm_cond nbas dm_atleast)) \<and>
   (shls 0 = shls 1 \<longrightarrow>
      CVHFrha4_jk_s1il X eri dm v nao ncomp shls ao_loc tao dm_cond nbas dm_atleast =
        CVHFrha2kl_jk_s1il X eri dm v nao ncomp shls ao_loc tao dm_cond nbas dm_atleast \<and>
      CVHFrha4_li_s1kj X eri dm v nao ncomp shls ao_loc tao dm_cond nbas dm_atleast =
        CVHFrha2kl_li_s1kj X eri dm v nao ncomp shls ao_loc tao dm_cond nbas dm_atleast)"
  by (simp add: CVHFrha2kl_lk_s1ij_def CVHFrha2kl_jk_s1il_def CVHFrha2kl_li_s1kj_def
      CVHFrha4_jk_s1il_def CVHFrha4_li_s1kj_def split: sum.splits)

theorem rha2kl_collapsed_kl_is_rs1_witness:
  "shells 0 0 0 0 2 = shells 0 0 0 0 3 \<and> shells 0 0 0 0 0 = shells 0 0 0 0 1 \<and>
   CVHFrha2kl_lk_s1ij (demo :: (complex, unit, unit) collab) (\<lambda>p. 2) (\<lambda>p. 3) (\<lambda>p. 0) 1 1
       (shells 0 0 0 0) one_ao_each (\<lambda>p. 1) () 1 () =
     callee (CVHFrs1_lk_s1ij demo (\<lambda>p. 2) (\<lambda>p. 3) (\<lambda>p. 0) 1 1
       (shells 0 0 0 0) one_ao_each (\<lambda>p. 1) () 1 ()) \<and>
   CVHFrha2kl_jk_s1il (demo :: (complex, unit, unit) collab) (\<lambda>p. 2) (\<lambda>p. 3) (\<lambda>p. 0) 1 1
       (shells 0 0 0 0) one_ao_each (\<lambda>p. 1) () 1 () =
     callee (CVHFrs1_jk_s1il demo (\<lambda>p. 2) (\<lambda>p. 3) (\<lambda>p. 0) 1 1
       (shells 0 0 0 0) one_ao_each (\<lambda>p. 1) () 1 ()) \<and>
   CVHFrha4_jk_s1il (demo :: (complex, unit, unit) collab) (\<lambda>p. 2) (\<lambda>p. 3) (\<lambda>p. 0) 1 1
       (shells 0 0 0 0) one_ao_each (\<lambda>p. 1) () 1 () =
     CVHFrha2kl_jk_s1il demo (\<lambda>p. 2) (\<lambda>p. 3) (\<lambda>p. 0) 1 1
       (shells 0 0 0 0) one_ao_each (\<lambda>p. 1) () 1 ()"
proof -
  have h: "shells 0 0 0 0 2 = shells 0 0 0 0 3" "shells 0 0 0 0 0 = shells 0 0 0 0 1"
    by (simp_all add: shells_def)
  show ?thesis
    using h rha2kl_collapsed_kl_is_rs1[where shls = "shells 0 0 0 0"
        and X = "demo :: (complex, unit, unit) collab" and eri = "\<lambda>p. 2" and dm = "\<lambda>p. 3"
        and v = "\<lambda>p. 0" and nao = 1 and ncomp = 1 and ao_loc = one_ao_each and tao = "\<lambda>p. 1"
        and dm_cond = "()" and nbas = 1 and dm_atleast = "()"]
    by blast
qed

section \<open>Evaluation at concrete inputs\<close>

lemmas demo_defs = demo_def demo_timerev_def demo_adbak_def demo_rs1_lk_s1ij_def demo_rs_none_def
  shells_def one_ao_each_def

lemmas kernel_defs = CVHFrha2kl_lk_s1ij_def CVHFrha2kl_jk_s1il_def CVHFrha2kl_li_s1kj_def
  CVHFrha4_jk_s1il_def CVHFrha4_li_s1kj_def CVHFrha4_lk_s2ij_def
  rha2kl_lk_loop_def rha2kl_jk_loop_def rha2kl_li_loop_def rha4_jk_loop1_def rha4_jk_loop2_def
  rha4_li_loop1_def rha4_li_loop2_def LOCIJKL_def callee_def
  adbak_blockT_def zgemv_def NPzset0_def dot_def ptr_add_def through_def




text \<open>
  Claim C9. The code of \<^verbatim>\<open>rha_direct_dot.c\<close> itself never reads the screening arguments
  \<open>dm_cond\<close> and \<open>dm_atleast\<close>: for any two values of them, all other inputs being equal,
  what the kernels add beyond the delegated \<^verbatim>\<open>CVHFrs*\<close> calls is identical. So a kernel
  that makes no delegated call (\<^verbatim>\<open>CVHFrha2kl_lk_s1ij\<close> with \<open>shls[2] > shls[3]\<close>) returns the
  same for both, and every kernel returns the same for both as soon as its delegated call
  does.
\<close>

theorem rha_kernels_ignore_screening:
  "(shls 3 < shls 2 \<longrightarrow>
      CVHFrha2kl_lk_s1ij X eri dm v nao ncomp shls ao_loc tao dm_cond nbas dm_atleast =
      CVHFrha2kl_lk_s1ij X eri dm v nao ncomp shls ao_loc tao dm_cond' nbas dm_atleast') \<and>
   (CVHFrs1_lk_s1ij X eri dm v nao ncomp shls ao_loc tao dm_cond nbas dm_atleast =
      CVHFrs1_lk_s1ij X eri dm v nao ncomp shls ao_loc tao dm_cond' nbas dm_atleast' \<longrightarrow>
    CVHFrha2kl_lk_s1ij X eri dm v nao ncomp shls ao_loc tao dm_cond nbas dm_atleast =
      CVHFrha2kl_lk_s1ij X eri dm v nao ncomp shls ao_loc tao dm_cond' nbas dm_atleast' \<and>
    CVHFrha4_lk_s2ij X eri dm v nao ncomp shls ao_loc tao dm_cond nbas dm_atleast =
      CVHFrha4_lk_s2ij X eri dm v nao ncomp shls ao_loc tao dm_cond' nbas dm_atleast') \<and>
   (CVHFrs1_jk_s1il X eri dm v nao ncomp shls ao_loc tao dm_cond nbas dm_atleast =
      CVHFrs1_jk_s1il X eri dm v nao ncomp shls ao_loc tao dm_cond' nbas dm_atleast' \<longrightarrow>
    CVHFrha2kl_jk_s1il X eri dm v nao ncomp shls ao_loc tao dm_cond nbas dm_atleast =
      CVHFrha2kl_jk_s1il X eri dm v nao ncomp shls ao_loc tao dm_cond' nbas dm_atleast' \<and>
    CVHFrha4_jk_s1il X eri dm v nao ncomp shls ao_loc tao dm_cond nbas dm_atleast =
      CVHFrha4_jk_s1il X eri dm v nao ncomp shls ao_loc tao dm_cond' nbas dm_atleast') \<and>
   (CVHFrs1_li_s1kj X eri dm v nao ncomp shls ao_loc tao dm_cond nbas dm_atleast =
      CVHFrs1_li_s1kj X eri dm v nao ncomp shls ao_loc tao dm_cond' nbas dm_atleast' \<longrightarrow>
    CVHFrha2kl_li_s1kj X eri dm v nao ncomp shls ao_loc tao dm_cond nbas dm_atleast =
      CVHFrha2kl_li_s1kj X eri dm v nao ncomp shls ao_loc tao dm_cond' nbas dm_atleast' \<and>
    CVHFrha4_li_s1kj X eri dm v nao ncomp shls ao_loc tao dm_cond nbas dm_atleast =
      CVHFrha4_li_s1kj X eri dm v nao ncomp shls ao_loc tao dm_cond' nbas dm_atleast')"
  by (simp add: CVHFrha2kl_lk_s1ij_def CVHFrha4_lk_s2ij_def CVHFrha2kl_jk_s1il_def
      CVHFrha4_jk_s1il_def CVHFrha2kl_li_s1kj_def CVHFrha4_li_s1kj_def)

theorem rha_kernels_ignore_screening_witness:
  "shells 1 0 1 0 3 < shells 1 0 1 0 2 \<and>
   CVHFrha2kl_lk_s1ij (demo :: (complex, bool, real) collab) (\<lambda>p. 2) (\<lambda>p. 3) (\<lambda>p. 0) 2 1
       (shells 1 0 1 0) one_ao_each (\<lambda>p. 1) True 2 (0::real) =
     CVHFrha2kl_lk_s1ij demo (\<lambda>p. 2) (\<lambda>p. 3) (\<lambda>p. 0) 2 1
       (shells 1 0 1 0) one_ao_each (\<lambda>p. 1) False 2 (1::real) \<and>
   CVHFrs1_li_s1kj (demo :: (complex, bool, real) collab) (\<lambda>p. 2) (\<lambda>p. 3) (\<lambda>p. 0) 2 1
       (shells 1 0 1 0) one_ao_each (\<lambda>p. 1) True 2 (0::real) =
     CVHFrs1_li_s1kj demo (\<lambda>p. 2) (\<lambda>p. 3) (\<lambda>p. 0) 2 1
       (shells 1 0 1 0) one_ao_each (\<lambda>p. 1) False 2 (1::real) \<and>
   CVHFrha4_li_s1kj (demo :: (complex, bool, real) collab) (\<lambda>p. 2) (\<lambda>p. 3) (\<lambda>p. 0) 2 1
       (shells 1 0 1 0) one_ao_each (\<lambda>p. 1) True 2 (0::real) =
     CVHFrha4_li_s1kj demo (\<lambda>p. 2) (\<lambda>p. 3) (\<lambda>p. 0) 2 1
       (shells 1 0 1 0) one_ao_each (\<lambda>p. 1) False 2 (1::real)"
proof -
  have h: "shells 1 0 1 0 3 < shells 1 0 1 0 2"
    by (simp add: shells_def)
  have r: "CVHFrs1_li_s1kj (demo :: (complex, bool, real) collab) (\<lambda>p. 2) (\<lambda>p. 3) (\<lambda>p. 0) 2 1
       (shells 1 0 1 0) one_ao_each (\<lambda>p. 1) True 2 (0::real) =
     CVHFrs1_li_s1kj demo (\<lambda>p. 2) (\<lambda>p. 3) (\<lambda>p. 0) 2 1
       (shells 1 0 1 0) one_ao_each (\<lambda>p. 1) False 2 (1::real)"
    by (simp add: demo_def demo_rs_none_def)
  show ?thesis
    using h r rha_kernels_ignore_screening[where shls = "shells 1 0 1 0"
        and X = "demo :: (complex, bool, real) collab" and eri = "\<lambda>p. 2" and dm = "\<lambda>p. 3"
        and v = "\<lambda>p. 0" and nao = 2 and ncomp = 1 and ao_loc = one_ao_each and tao = "\<lambda>p. 1"
        and dm_cond = True and dm_cond' = False and nbas = 2 and dm_atleast = "0::real"
        and dm_atleast' = "1::real"]
    by simp
qed

section \<open>Diagonal blocks\<close>




section \<open>The J-build kernel with k > l\<close>

lemma idx_bound:
  fixes a b m n :: int
  assumes "0 \<le> a" "a < m" "0 \<le> b" "b < n"
  shows "0 \<le> b * m + a" "b * m + a < m * n"
proof -
  show "0 \<le> b * m + a" using assms by simp
  have "b + 1 \<le> n" using assms by simp
  then have "(b + 1) * m \<le> n * m" using assms by (intro mult_right_mono) auto
  then show "b * m + a < m * n" using assms by (simp add: algebra_simps)
qed


lemma through_apply: "through d f p q = f (ptr_add p d) (q - d)"
  by (simp add: through_def ptr_add_def)

lemma zgemv_N_in:
  fixes y :: "('a::{plus,times,zero}) mem"
  assumes "0 \<le> r" "r < m"
  shows "zgemv CHR ''N'' m n alpha A lda x 1 beta y 1 r =
         beta * y r + alpha * dot n (\<lambda>c. A (r + c * lda) * x c)"
  using assms by (simp add: zgemv_def)

lemma zgemv_T_in:
  fixes y :: "('a::{plus,times,zero}) mem"
  assumes "0 \<le> c" "c < n"
  shows "zgemv CHR ''T'' m n alpha A lda x 1 beta y 1 c =
         beta * y c + alpha * dot m (\<lambda>r. A (r + c * lda) * x r)"
  using assms by (simp add: zgemv_def)

lemma zgemv_N_out:
  fixes y :: "('a::{plus,times,zero}) mem"
  assumes "\<not> (0 \<le> r \<and> r < m)"
  shows "zgemv CHR ''N'' m n alpha A lda x 1 beta y 1 r = y r"
  using assms by (auto simp add: zgemv_def)

lemma zgemv_T_out:
  fixes y :: "('a::{plus,times,zero}) mem"
  assumes "\<not> (0 \<le> c \<and> c < n)"
  shows "zgemv CHR ''T'' m n alpha A lda x 1 beta y 1 c = y c"
  using assms by (auto simp add: zgemv_def)








section \<open>The components of the integral buffer\<close>

lemma agree_onD: "agree_on lo hi f g \<Longrightarrow> lo \<le> p \<Longrightarrow> p < hi \<Longrightarrow> f p = g p"
  by (simp add: agree_on_def)

lemma agree_onI: "(\<And>p. lo \<le> p \<Longrightarrow> p < hi \<Longrightarrow> f p = g p) \<Longrightarrow> agree_on lo hi f g"
  by (simp add: agree_on_def)

lemma agree_on_ptr_add: "agree_on p (p + n) f g \<Longrightarrow> agree_on 0 n (ptr_add f p) (ptr_add g p)"
  by (simp add: agree_on_def ptr_add_def)

lemma zgemv_N_agree:
  fixes y y' :: "('a::{plus,times,zero}) mem"
  assumes A: "agree_on 0 (m * n) A A'" and y: "agree_on lo hi y y'"
  shows "agree_on lo hi (zgemv CHR ''N'' m n alpha A m x 1 beta y 1)
                        (zgemv CHR ''N'' m n alpha A' m x 1 beta y' 1)"
proof (rule agree_onI)
  fix r assume r: "lo \<le> r" "r < hi"
  show "zgemv CHR ''N'' m n alpha A m x 1 beta y 1 r = zgemv CHR ''N'' m n alpha A' m x 1 beta y' 1 r"
  proof (cases "0 \<le> r \<and> r < m")
    case True
    have "dot n (\<lambda>c. A (r + c * m) * x c) = dot n (\<lambda>c. A' (r + c * m) * x c)"
    proof (rule dot_cong)
      fix c assume "0 \<le> c" "c < n"
      then have "0 \<le> c * m + r" "c * m + r < m * n" using idx_bound[of r m c n] True by auto
      then show "A (r + c * m) * x c = A' (r + c * m) * x c"
        using agree_onD[OF A, of "r + c * m"] by (simp add: add.commute)
    qed
    then show ?thesis using True agree_onD[OF y r] by (simp add: zgemv_N_in)
  next
    case False
    then show ?thesis using agree_onD[OF y r] by (simp add: zgemv_N_out)
  qed
qed

lemma zgemv_T_agree:
  fixes y y' :: "('a::{plus,times,zero}) mem"
  assumes A: "agree_on 0 (m * n) A A'" and y: "agree_on lo hi y y'"
  shows "agree_on lo hi (zgemv CHR ''T'' m n alpha A m x 1 beta y 1)
                        (zgemv CHR ''T'' m n alpha A' m x 1 beta y' 1)"
proof (rule agree_onI)
  fix c assume c: "lo \<le> c" "c < hi"
  show "zgemv CHR ''T'' m n alpha A m x 1 beta y 1 c = zgemv CHR ''T'' m n alpha A' m x 1 beta y' 1 c"
  proof (cases "0 \<le> c \<and> c < n")
    case True
    have "dot m (\<lambda>r. A (r + c * m) * x r) = dot m (\<lambda>r. A' (r + c * m) * x r)"
    proof (rule dot_cong)
      fix r assume "0 \<le> r" "r < m"
      then have "0 \<le> c * m + r" "c * m + r < m * n" using idx_bound[of r m c n] True by auto
      then show "A (r + c * m) * x r = A' (r + c * m) * x r"
        using agree_onD[OF A, of "r + c * m"] by (simp add: add.commute)
    qed
    then show ?thesis using True agree_onD[OF y c] by (simp add: zgemv_T_in)
  next
    case False
    then show ?thesis using agree_onD[OF y c] by (simp add: zgemv_T_out)
  qed
qed

lemma NPzset0_agree: "agree_on 0 len (NPzset0 y len) (NPzset0 y' len)"
  by (simp add: agree_on_def NPzset0_def)

lemma NPzset0_agree_keep:
  "agree_on lo hi y y' \<Longrightarrow> agree_on lo hi (NPzset0 y len) (NPzset0 y' len)"
  by (simp add: agree_on_def NPzset0_def)

lemma matrices_disjoint:
  fixes nn :: int
  assumes "k \<noteq> c" "0 \<le> nn" "c * nn \<le> q" "q < c * nn + nn"
  shows "\<not> (0 \<le> q - k * nn \<and> q - k * nn < nn)"
proof
  assume a: "0 \<le> q - k * nn \<and> q - k * nn < nn"
  show False
  proof (cases "k < c")
    case True
    then have "k + 1 \<le> c" by simp
    then have "(k + 1) * nn \<le> c * nn" using assms(2) by (intro mult_right_mono) auto
    then show False using a assms by (simp add: algebra_simps)
  next
    case False
    then have "c + 1 \<le> k" using assms(1) by simp
    then have "(c + 1) * nn \<le> k * nn" using assms(2) by (intro mult_right_mono) auto
    then show False using a assms by (simp add: algebra_simps)
  qed
qed

lemma through_local_same:
  assumes "mat_local H n len" "agree_on 0 len blk blk'"
    and "agree_on (c * (n * n)) (c * (n * n) + n * n) w w'"
  shows "agree_on (c * (n * n)) (c * (n * n) + n * n)
           (through (c * (n * n)) (H blk) w) (through (c * (n * n)) (H blk') w')"
proof (rule agree_onI)
  fix q assume q: "c * (n * n) \<le> q" "q < c * (n * n) + n * n"
  have "agree_on 0 (n * n) (H blk (ptr_add w (c * (n * n)))) (H blk' (ptr_add w' (c * (n * n))))"
    using assms agree_on_ptr_add[OF assms(3)] by (simp add: mat_local_def)
  from agree_onD[OF this, of "q - c * (n * n)"] q
  show "through (c * (n * n)) (H blk) w q = through (c * (n * n)) (H blk') w' q"
    by (simp add: through_apply)
qed

lemma through_local_other:
  assumes "mat_local H n len" "k \<noteq> c" "c * (n * n) \<le> q" "q < c * (n * n) + n * n"
  shows "through (k * (n * n)) (H blk) w q = w q"
proof -
  have "\<not> (0 \<le> q - k * (n * n) \<and> q - k * (n * n) < n * n)"
    using matrices_disjoint[OF assms(2) _ assms(3,4)] by simp
  then have "H blk (ptr_add w (k * (n * n))) (q - k * (n * n)) = ptr_add w (k * (n * n)) (q - k * (n * n))"
    using assms(1) by (simp add: mat_local_def)
  then show ?thesis by (simp add: through_apply ptr_add_def)
qed

lemma through_local_step:
  assumes loc: "mat_local H n len"
    and blk: "k = c \<Longrightarrow> agree_on 0 len blk blk'"
    and w: "agree_on (c * (n * n)) (c * (n * n) + n * n) w w'"
  shows "agree_on (c * (n * n)) (c * (n * n) + n * n)
           (through (k * (n * n)) (H blk) w) (through (k * (n * n)) (H blk') w')"
proof (cases "k = c")
  case True
  then show ?thesis using through_local_same[OF loc blk w] by simp
next
  case False
  show ?thesis
    by (rule agree_onI) (simp add: through_local_other[OF loc False] agree_onD[OF w])
qed

text \<open>Component loops with the pointers eri, p0213 and vk.\<close>

lemma comp_loop5_agree:
  fixes Z :: "'a::zero mem \<Rightarrow> 'a mem \<Rightarrow> 'a mem" and H :: "'a mem \<Rightarrow> 'a mem \<Rightarrow> 'a mem"
  assumes Z: "\<And>A A' y y'. agree_on 0 blk A A' \<Longrightarrow> agree_on 0 len y y' \<Longrightarrow>
                agree_on 0 len (Z A y) (Z A' y')"
    and loc: "mat_local H nao len"
    and e: "agree_on (p0 + c * blk) (p0 + c * blk + blk) eri eri'"
    and v: "agree_on (c * (nao * nao)) (c * (nao * nao) + nao * nao) vk vk'"
  shows "agree_on (c * (nao * nao)) (c * (nao * nao) + nao * nao)
     (snd (snd (snd (snd (for_loop 0 ncomp
        (\<lambda>ic (ep, pp, vp, svk, vk).
           (ep + blk, pp + blk, vp + nao * nao, Z (ptr_add eri pp) (NPzset0 svk len),
            through vp (H (Z (ptr_add eri pp) (NPzset0 svk len))) vk))
        (e0, p0, 0, svk0, vk))))))
     (snd (snd (snd (snd (for_loop 0 ncomp
        (\<lambda>ic (ep, pp, vp, svk, vk).
           (ep + blk, pp + blk, vp + nao * nao, Z (ptr_add eri' pp) (NPzset0 svk len),
            through vp (H (Z (ptr_add eri' pp) (NPzset0 svk len))) vk))
        (e0', p0, 0, svk0', vk'))))))"
proof -
  let ?R = "\<lambda>k (s :: int \<times> int \<times> int \<times> 'a mem \<times> 'a mem) (t :: int \<times> int \<times> int \<times> 'a mem \<times> 'a mem).
      fst (snd s) = p0 + k * blk \<and> fst (snd t) = p0 + k * blk \<and>
      fst (snd (snd s)) = k * (nao * nao) \<and> fst (snd (snd t)) = k * (nao * nao) \<and>
      agree_on (c * (nao * nao)) (c * (nao * nao) + nao * nao)
        (snd (snd (snd (snd s)))) (snd (snd (snd (snd t))))"
  let ?f = "\<lambda>eri (ic::int) (ep, pp, vp, svk, vk).
           (ep + blk, pp + blk, vp + nao * nao, Z (ptr_add eri pp) (NPzset0 svk len),
            through vp (H (Z (ptr_add eri pp) (NPzset0 svk len))) vk)"
  have "?R (max 0 ncomp) (for_loop 0 ncomp (?f eri) (e0, p0, 0, svk0, vk))
                         (for_loop 0 ncomp (?f eri') (e0', p0, 0, svk0', vk'))"
  proof (rule for_loop_rel[where R = ?R])
    show "?R 0 (e0, p0, 0, svk0, vk) (e0', p0, 0, svk0', vk')" using v by simp
  next
    fix k s t assume k: "0 \<le> k" "k < ncomp" and R: "?R k s t"
    obtain ep pp vp svk w where s: "s = (ep, pp, vp, svk, w)" by (cases s) auto
    obtain ep' pp' vp' svk' w' where t: "t = (ep', pp', vp', svk', w')" by (cases t) auto
    from R have pp: "pp = p0 + k * blk" "pp' = p0 + k * blk"
      and vp: "vp = k * (nao * nao)" "vp' = k * (nao * nao)"
      and w: "agree_on (c * (nao * nao)) (c * (nao * nao) + nao * nao) w w'"
      by (simp_all add: s t)
    have blk: "agree_on 0 len (Z (ptr_add eri pp) (NPzset0 svk len))
                 (Z (ptr_add eri' pp') (NPzset0 svk' len))" if "k = c"
      using that e by (simp add: pp Z agree_on_ptr_add NPzset0_agree)
    have "agree_on (c * (nao * nao)) (c * (nao * nao) + nao * nao)
            (through (k * (nao * nao)) (H (Z (ptr_add eri pp) (NPzset0 svk len))) w)
            (through (k * (nao * nao)) (H (Z (ptr_add eri' pp') (NPzset0 svk' len))) w')"
      by (rule through_local_step[OF loc blk w])
    then show "?R (k + 1) (?f eri k s) (?f eri' k t)"
      by (simp add: s t pp vp algebra_simps)
  qed
  then show ?thesis by simp
qed

lemma rha2kl_jk_loop_agree:
  fixes X :: "('a::{plus,times,zero,one,uminus}, 'c, 'd) collab"
  assumes loc: "mat_local (\<lambda>blk mat. CVHFtimerev_adbak_jT X blk mat tao istart iend kstart kend nao) nao dik"
    and e: "agree_on (p0 + c * (dik * djl)) (p0 + c * (dik * djl) + dik * djl) eri eri'"
    and v: "agree_on (c * (nao * nao)) (c * (nao * nao) + nao * nao) vk vk'"
  shows "agree_on (c * (nao * nao)) (c * (nao * nao) + nao * nao)
     (snd (snd (snd (snd (rha2kl_jk_loop X eri sdm tao nao ncomp istart iend kstart kend dik djl
         (e0, p0, 0, svk0, vk))))))
     (snd (snd (snd (snd (rha2kl_jk_loop X eri' sdm tao nao ncomp istart iend kstart kend dik djl
         (e0', p0, 0, svk0', vk'))))))"
  unfolding rha2kl_jk_loop_def Let_def
  by (rule comp_loop5_agree[where Z = "\<lambda>A y. zgemv CHR ''N'' dik djl (- 1) A dik sdm 1 1 y 1"
        and H = "\<lambda>blk mat. CVHFtimerev_adbak_jT X blk mat tao istart iend kstart kend nao"
        and len = dik and blk = "dik * djl", OF _ loc e v])
     (rule zgemv_N_agree)


lemma rha2kl_li_loop_agree:
  fixes X :: "('a::{plus,times,zero,one,uminus}, 'c, 'd) collab"
  assumes loc: "mat_local (\<lambda>blk mat. CVHFtimerev_adbak_i X blk mat tao lstart lend jstart jend nao) nao (dl * dj)"
    and e: "agree_on (p0 + c * (dik * djl)) (p0 + c * (dik * djl) + dik * djl) eri eri'"
    and v: "agree_on (c * (nao * nao)) (c * (nao * nao) + nao * nao) vk vk'"
  shows "agree_on (c * (nao * nao)) (c * (nao * nao) + nao * nao)
     (snd (snd (snd (snd (rha2kl_li_loop X eri sdm tao nao ncomp lstart lend jstart jend dik djl dl dj
         (e0, p0, 0, svk0, vk))))))
     (snd (snd (snd (snd (rha2kl_li_loop X eri' sdm tao nao ncomp lstart lend jstart jend dik djl dl dj
         (e0', p0, 0, svk0', vk'))))))"
  unfolding rha2kl_li_loop_def Let_def
  by (rule comp_loop5_agree[where Z = "\<lambda>A y. zgemv CHR ''T'' dik djl (- 1) A dik sdm 1 1 y 1"
        and H = "\<lambda>blk mat. CVHFtimerev_adbak_i X blk mat tao lstart lend jstart jend nao"
        and len = "dl * dj" and blk = "dik * djl", OF _ loc e v])
     (rule zgemv_T_agree)

lemma rha4_jk_loop1_agree:
  fixes X :: "('a::{plus,times,zero,one,uminus}, 'c, 'd) collab"
  assumes loc: "mat_local (\<lambda>blk mat. CVHFtimerev_adbak_iT X blk mat tao jstart jend lstart lend nao) nao djl"
    and e: "agree_on (p0 + c * (dik * djl)) (p0 + c * (dik * djl) + dik * djl) eri eri'"
    and v: "agree_on (c * (nao * nao)) (c * (nao * nao) + nao * nao) vk vk'"
  shows "agree_on (c * (nao * nao)) (c * (nao * nao) + nao * nao)
     (snd (snd (snd (snd (rha4_jk_loop1 X eri sdm tao nao ncomp jstart jend lstart lend dik djl
         (e0, p0, 0, svk0, vk))))))
     (snd (snd (snd (snd (rha4_jk_loop1 X eri' sdm tao nao ncomp jstart jend lstart lend dik djl
         (e0', p0, 0, svk0', vk'))))))"
  unfolding rha4_jk_loop1_def Let_def
  by (rule comp_loop5_agree[where Z = "\<lambda>A y. zgemv CHR ''T'' dik djl 1 A dik sdm 1 1 y 1"
        and H = "\<lambda>blk mat. CVHFtimerev_adbak_iT X blk mat tao jstart jend lstart lend nao"
        and len = djl and blk = "dik * djl", OF _ loc e v])
     (rule zgemv_T_agree)

lemma rha4_li_loop1_agree:
  fixes X :: "('a::{plus,times,zero,one,uminus}, 'c, 'd) collab"
  assumes loc: "mat_local (\<lambda>blk mat. CVHFtimerev_adbak_j X blk mat tao kstart kend istart iend nao) nao dik"
    and e: "agree_on (p0 + c * (dik * djl)) (p0 + c * (dik * djl) + dik * djl) eri eri'"
    and v: "agree_on (c * (nao * nao)) (c * (nao * nao) + nao * nao) vk vk'"
  shows "agree_on (c * (nao * nao)) (c * (nao * nao) + nao * nao)
     (snd (snd (snd (snd (rha4_li_loop1 X eri sdm tao nao ncomp kstart kend istart iend dik djl
         (e0, p0, 0, svk0, vk))))))
     (snd (snd (snd (snd (rha4_li_loop1 X eri' sdm tao nao ncomp kstart kend istart iend dik djl
         (e0', p0, 0, svk0', vk'))))))"
  unfolding rha4_li_loop1_def Let_def
  by (rule comp_loop5_agree[where Z = "\<lambda>A y. zgemv CHR ''N'' dik djl 1 A dik sdm 1 1 y 1"
        and H = "\<lambda>blk mat. CVHFtimerev_adbak_j X blk mat tao kstart kend istart iend nao"
        and len = dik and blk = "dik * djl", OF _ loc e v])
     (rule zgemv_N_agree)

text \<open>Component loops with the pointers eri and vk, and an inner computation that advances eri.\<close>

lemma comp_loop4_agree:
  fixes I :: "'a::zero mem \<Rightarrow> int \<Rightarrow> 'a mem \<Rightarrow> int \<times> 'a mem" and H :: "'a mem \<Rightarrow> 'a mem \<Rightarrow> 'a mem"
  assumes I1: "\<And>A ep y. fst (I A ep y) = ep + blk"
    and I2: "\<And>ep y y'. agree_on ep (ep + blk) eri eri' \<Longrightarrow> agree_on 0 len y y' \<Longrightarrow>
                agree_on 0 len (snd (I eri ep y)) (snd (I eri' ep y'))"
    and loc: "mat_local H nao len"
    and e: "agree_on (c * blk) (c * blk + blk) eri eri'"
    and v: "agree_on (c * (nao * nao)) (c * (nao * nao) + nao * nao) vk vk'"
  shows "agree_on (c * (nao * nao)) (c * (nao * nao) + nao * nao)
     (snd (snd (snd (for_loop 0 ncomp
        (\<lambda>ic (ep, vp, svk, vk).
           case I eri ep (NPzset0 svk len) of
             (ep', svk') \<Rightarrow> (ep', vp + nao * nao, svk', through vp (H svk') vk))
        (0, 0, svk0, vk)))))
     (snd (snd (snd (for_loop 0 ncomp
        (\<lambda>ic (ep, vp, svk, vk).
           case I eri' ep (NPzset0 svk len) of
             (ep', svk') \<Rightarrow> (ep', vp + nao * nao, svk', through vp (H svk') vk))
        (0, 0, svk0', vk')))))"
proof -
  let ?R = "\<lambda>k (s :: int \<times> int \<times> 'a mem \<times> 'a mem) (t :: int \<times> int \<times> 'a mem \<times> 'a mem).
      fst s = k * blk \<and> fst t = k * blk \<and>
      fst (snd s) = k * (nao * nao) \<and> fst (snd t) = k * (nao * nao) \<and>
      agree_on (c * (nao * nao)) (c * (nao * nao) + nao * nao)
        (snd (snd (snd s))) (snd (snd (snd t)))"
  let ?f = "\<lambda>eri (ic::int) (ep, vp, svk, vk).
           case I eri ep (NPzset0 svk len) of
             (ep', svk') \<Rightarrow> (ep', vp + nao * nao, svk', through vp (H svk') vk)"
  have "?R (max 0 ncomp) (for_loop 0 ncomp (?f eri) (0, 0, svk0, vk))
                         (for_loop 0 ncomp (?f eri') (0, 0, svk0', vk'))"
  proof (rule for_loop_rel[where R = ?R])
    show "?R 0 (0, 0, svk0, vk) (0, 0, svk0', vk')" using v by simp
  next
    fix k s t assume k: "0 \<le> k" "k < ncomp" and R: "?R k s t"
    obtain ep vp svk w where s: "s = (ep, vp, svk, w)" by (cases s) auto
    obtain ep' vp' svk' w' where t: "t = (ep', vp', svk', w')" by (cases t) auto
    from R have ep: "ep = k * blk" "ep' = k * blk"
      and vp: "vp = k * (nao * nao)" "vp' = k * (nao * nao)"
      and w: "agree_on (c * (nao * nao)) (c * (nao * nao) + nao * nao) w w'"
      by (simp_all add: s t)
    have blk: "agree_on 0 len (snd (I eri ep (NPzset0 svk len))) (snd (I eri' ep' (NPzset0 svk' len)))"
      if "k = c"
      using that e by (simp add: ep I2 NPzset0_agree)
    have "agree_on (c * (nao * nao)) (c * (nao * nao) + nao * nao)
            (through (k * (nao * nao)) (H (snd (I eri ep (NPzset0 svk len)))) w)
            (through (k * (nao * nao)) (H (snd (I eri' ep' (NPzset0 svk' len)))) w')"
      by (rule through_local_step[OF loc blk w])
    then show "?R (k + 1) (?f eri k s) (?f eri' k t)"
      using I1[of eri ep "NPzset0 svk len"] I1[of eri' ep' "NPzset0 svk' len"]
      by (simp add: s t ep vp algebra_simps split_def)
  qed
  then show ?thesis by simp
qed

lemma through_agree:
  assumes "\<And>lo hi u u'. agree_on lo hi u u' \<Longrightarrow> agree_on lo hi (F u) (F' u')"
    and "agree_on lo hi y y'"
  shows "agree_on lo hi (through d F y) (through d F' y')"
proof -
  have "agree_on (lo - d) (hi - d) (ptr_add y d) (ptr_add y' d)"
    using assms(2) by (simp add: agree_on_def ptr_add_def)
  from assms(1)[OF this] show ?thesis
    by (simp add: agree_on_def through_apply)
qed

lemma slab_in_block:
  fixes dijk :: int
  assumes "0 \<le> l" "l < dl" "0 \<le> dijk" "agree_on ep (ep + dl * dijk) eri eri'"
  shows "agree_on 0 dijk (ptr_add eri (ep + l * dijk)) (ptr_add eri' (ep + l * dijk))"
proof -
  have "(l + 1) * dijk \<le> dl * dijk" using assms by (intro mult_right_mono) auto
  moreover have "0 \<le> l * dijk" using assms by simp
  ultimately show ?thesis
    using assms(4) by (auto simp: agree_on_def ptr_add_def algebra_simps)
qed

lemma inner_ptr:
  "fst (for_loop l dl (\<lambda>l (ep, svk). (ep + dijk, G l ep svk)) (ep, y)) = ep + max 0 (dl - l) * dijk"
proof (induction "nat (dl - l)" arbitrary: l ep y)
  case 0
  then show ?case by (simp add: for_loop_done max_def)
next
  case (Suc d)
  then have lt: "l < dl" by linarith
  have d: "d = nat (dl - (l + 1))" using Suc.hyps(2) by linarith
  have "fst (for_loop l dl (\<lambda>l (ep, svk). (ep + dijk, G l ep svk)) (ep, y)) =
        fst (for_loop (l + 1) dl (\<lambda>l (ep, svk). (ep + dijk, G l ep svk)) (ep + dijk, G l ep y))"
    by (simp add: for_loop_step[OF lt])
  also have "\<dots> = (ep + dijk) + max 0 (dl - (l + 1)) * dijk"
    by (rule Suc.hyps(1)[OF d])
  also have "\<dots> = ep + max 0 (dl - l) * dijk"
    using lt by (simp add: max_def algebra_simps)
  finally show ?case .
qed

lemma inner_agree:
  fixes G :: "'a mem \<Rightarrow> int \<Rightarrow> int \<Rightarrow> 'a mem \<Rightarrow> 'a mem"
  assumes G: "\<And>l ep y y'. 0 \<le> l \<Longrightarrow> l < dl \<Longrightarrow> agree_on 0 dijk (ptr_add eri ep) (ptr_add eri' ep) \<Longrightarrow>
                 agree_on 0 len y y' \<Longrightarrow> agree_on 0 len (G eri l ep y) (G eri' l ep y')"
    and d: "0 \<le> dijk"
    and e: "agree_on ep (ep + dl * dijk) eri eri'"
    and y: "agree_on 0 len y y'"
  shows "agree_on 0 len
           (snd (for_loop 0 dl (\<lambda>l (ep, svk). (ep + dijk, G eri l ep svk)) (ep, y)))
           (snd (for_loop 0 dl (\<lambda>l (ep, svk). (ep + dijk, G eri' l ep svk)) (ep, y')))"
proof -
  let ?R = "\<lambda>l (s :: int \<times> 'a mem) (t :: int \<times> 'a mem).
      fst s = ep + l * dijk \<and> fst t = ep + l * dijk \<and> agree_on 0 len (snd s) (snd t)"
  have "?R (max 0 dl) (for_loop 0 dl (\<lambda>l (ep, svk). (ep + dijk, G eri l ep svk)) (ep, y))
                      (for_loop 0 dl (\<lambda>l (ep, svk). (ep + dijk, G eri' l ep svk)) (ep, y'))"
  proof (rule for_loop_rel[where R = ?R])
    show "?R 0 (ep, y) (ep, y')" using y by simp
  next
    fix l s t assume l: "0 \<le> l" "l < dl" and R: "?R l s t"
    have "agree_on 0 len (G eri l (ep + l * dijk) (snd s)) (G eri' l (ep + l * dijk) (snd t))"
      using G[OF l slab_in_block[OF l d e]] R by simp
    then show "?R (l + 1) (case s of (ep, svk) \<Rightarrow> (ep + dijk, G eri l ep svk))
                          (case t of (ep, svk) \<Rightarrow> (ep + dijk, G eri' l ep svk))"
      using R by (simp add: split_def algebra_simps)
  qed
  then show ?thesis by simp
qed

lemma adbak_blockT_local:
  fixes nao :: int
  assumes b: "0 \<le> istart" "iend \<le> nao" "0 \<le> jstart" "jend \<le> nao"
  shows "mat_local (\<lambda>blk (mat :: ('a::plus) mem). adbak_blockT mat blk nao istart iend jstart jend) nao
           ((iend - istart) * (jend - jstart))"
  unfolding mat_local_def
proof (intro conjI allI impI)
  fix blk blk' m m' :: "'a mem"
  assume a: "agree_on 0 ((iend - istart) * (jend - jstart)) blk blk' \<and> agree_on 0 (nao * nao) m m'"
  show "agree_on 0 (nao * nao) (adbak_blockT m blk nao istart iend jstart jend)
          (adbak_blockT m' blk' nao istart iend jstart jend)"
  proof (rule agree_onI)
    fix q assume q: "0 \<le> q" "q < nao * nao"
    show "adbak_blockT m blk nao istart iend jstart jend q = adbak_blockT m' blk' nao istart iend jstart jend q"
    proof (cases "\<exists>i j. istart \<le> i \<and> i < iend \<and> jstart \<le> j \<and> j < jend \<and> q = i * nao + j")
      case True
      then obtain i j where ij: "istart \<le> i" "i < iend" "jstart \<le> j" "j < jend" "q = i * nao + j"
        by blast
      have r: "0 \<le> (j - jstart) * (iend - istart) + (i - istart)"
        "(j - jstart) * (iend - istart) + (i - istart) < (iend - istart) * (jend - jstart)"
        using idx_bound[of "i - istart" "iend - istart" "j - jstart" "jend - jstart"] ij by auto
      show ?thesis
        using a q agree_onD[of 0 "(iend - istart) * (jend - jstart)" blk blk', OF _ r]
          agree_onD[of 0 "nao * nao" m m' q]
        by (simp add: ij(5) adbak_blockT_in[OF b(3,4) ij(1-4)])
    next
      case False
      then have "\<And>i j. istart \<le> i \<Longrightarrow> i < iend \<Longrightarrow> jstart \<le> j \<Longrightarrow> j < jend \<Longrightarrow> q \<noteq> i * nao + j"
        by blast
      then show ?thesis
        using a q agree_onD[of 0 "nao * nao" m m' q]
        by (simp add: adbak_blockT_out[OF b(3,4)])
    qed
  qed
next
  fix blk m :: "'a mem" and q :: int
  assume q: "\<not> (0 \<le> q \<and> q < nao * nao)"
  show "adbak_blockT m blk nao istart iend jstart jend q = m q"
  proof (rule adbak_blockT_out[OF b(3,4)])
    fix i j assume ij: "istart \<le> i" "i < iend" "jstart \<le> j" "j < jend"
    have "0 \<le> i * nao + j" "i * nao + j < nao * nao"
      using idx_bound[of j nao i nao] ij b by auto
    then show "q \<noteq> i * nao + j" using q by auto
  qed
qed

lemma rha2kl_lk_loop_agree:
  fixes eri eri' :: "('a::{plus,times,zero,one}) mem"
  assumes b: "0 \<le> istart" "iend \<le> nao" "0 \<le> jstart" "jend \<le> nao"
    and dij: "dij = (iend - istart) * (jend - jstart)"
    and e: "agree_on (c * (dij * dkl)) (c * (dij * dkl) + dij * dkl) eri eri'"
    and v: "agree_on (c * (nao * nao)) (c * (nao * nao) + nao * nao) vj vj'"
  shows "agree_on (c * (nao * nao)) (c * (nao * nao) + nao * nao)
     (snd (snd (snd (rha2kl_lk_loop eri sdm nao ncomp istart iend jstart jend dij dkl
         (0, 0, svj0, vj)))))
     (snd (snd (snd (rha2kl_lk_loop eri' sdm nao ncomp istart iend jstart jend dij dkl
         (0, 0, svj0', vj')))))"
proof -
  let ?I = "\<lambda>(A :: 'a mem) ep y. (ep + dij * dkl, zgemv CHR ''N'' dij dkl 1 (ptr_add A ep) dij sdm 1 0 y 1)"
  let ?H = "\<lambda>blk (mat :: 'a mem). adbak_blockT mat blk nao istart iend jstart jend"
  have l: "rha2kl_lk_loop A sdm nao ncomp istart iend jstart jend dij dkl =
      for_loop 0 ncomp (\<lambda>ic (ep, vp, svk, vk).
           case ?I A ep (NPzset0 svk dij) of
             (ep', svk') \<Rightarrow> (ep', vp + nao * nao, svk', through vp (?H svk') vk))" for A
    by (simp add: rha2kl_lk_loop_def Let_def)
  show ?thesis
    unfolding l
  proof (rule comp_loop4_agree[where I = ?I and H = ?H and len = dij and blk = "dij * dkl", OF _ _ _ e v])
    show "\<And>A ep y. fst (?I A ep y) = ep + dij * dkl" by simp
    show "\<And>ep y y'. agree_on ep (ep + dij * dkl) eri eri' \<Longrightarrow> agree_on 0 dij y y' \<Longrightarrow>
        agree_on 0 dij (snd (?I eri ep y)) (snd (?I eri' ep y'))"
      by (simp add: zgemv_N_agree agree_on_ptr_add)
    show "mat_local ?H nao dij" unfolding dij by (rule adbak_blockT_local[OF b])
  qed
qed

lemma rha4_jk_loop2_agree:
  fixes X :: "('a::{plus,times,zero,one,uminus}, 'c, 'd) collab"
  assumes loc: "mat_local (\<lambda>blk mat. CVHFtimerev_adbak_blockT X blk mat tao jstart jend kstart kend nao) nao djk"
    and d: "0 \<le> dl" "0 \<le> dijk" "dijk = di * djk"
    and e: "agree_on (c * (dl * dijk)) (c * (dl * dijk) + dl * dijk) eri eri'"
    and v: "agree_on (c * (nao * nao)) (c * (nao * nao) + nao * nao) vk vk'"
  shows "agree_on (c * (nao * nao)) (c * (nao * nao) + nao * nao)
     (snd (snd (snd (rha4_jk_loop2 X eri sdm tao nao ncomp jstart jend kstart kend di dl djk dijk
         (0, 0, svk0, vk)))))
     (snd (snd (snd (rha4_jk_loop2 X eri' sdm tao nao ncomp jstart jend kstart kend di dl djk dijk
         (0, 0, svk0', vk')))))"
proof -
  let ?G = "\<lambda>(A :: 'a mem) l ep y.
       zgemv CHR ''T'' di djk (- 1) (ptr_add A ep) di (ptr_add sdm (l * di)) 1 1 y 1"
  let ?I = "\<lambda>(A :: 'a mem) ep y. for_loop 0 dl (\<lambda>l (ep, svk). (ep + dijk, ?G A l ep svk)) (ep, y)"
  let ?H = "\<lambda>blk mat. CVHFtimerev_adbak_blockT X blk mat tao jstart jend kstart kend nao"
  have l: "rha4_jk_loop2 X A sdm tao nao ncomp jstart jend kstart kend di dl djk dijk =
      for_loop 0 ncomp (\<lambda>ic (ep, vp, svk, vk).
           case ?I A ep (NPzset0 svk djk) of
             (ep', svk') \<Rightarrow> (ep', vp + nao * nao, svk', through vp (?H svk') vk))" for A
    by (simp add: rha4_jk_loop2_def Let_def)
  show ?thesis
    unfolding l
  proof (rule comp_loop4_agree[where I = ?I and H = ?H and len = djk and blk = "dl * dijk", OF _ _ loc e v])
    show "\<And>A ep y. fst (?I A ep y) = ep + dl * dijk"
      using d(1) by (simp add: inner_ptr)
    show "\<And>ep y y'. agree_on ep (ep + dl * dijk) eri eri' \<Longrightarrow> agree_on 0 djk y y' \<Longrightarrow>
        agree_on 0 djk (snd (?I eri ep y)) (snd (?I eri' ep y'))"
      by (rule inner_agree[where G = ?G, OF _ d(2)]) (simp_all add: zgemv_T_agree d(3))
  qed
qed

lemma rha4_li_loop2_agree:
  fixes X :: "('a::{plus,times,zero,one,uminus}, 'c, 'd) collab"
  assumes loc: "mat_local (\<lambda>blk mat. CVHFtimerev_adbak_block X blk mat tao lstart lend istart iend nao) nao dil"
    and d: "0 \<le> dl" "0 \<le> dijk" "dijk = di * djk"
    and e: "agree_on (c * (dl * dijk)) (c * (dl * dijk) + dl * dijk) eri eri'"
    and v: "agree_on (c * (nao * nao)) (c * (nao * nao) + nao * nao) vk vk'"
  shows "agree_on (c * (nao * nao)) (c * (nao * nao) + nao * nao)
     (snd (snd (snd (rha4_li_loop2 X eri sdm tao nao ncomp lstart lend istart iend di dl djk dijk dil
         (0, 0, svk0, vk)))))
     (snd (snd (snd (rha4_li_loop2 X eri' sdm tao nao ncomp lstart lend istart iend di dl djk dijk dil
         (0, 0, svk0', vk')))))"
proof -
  let ?G = "\<lambda>(A :: 'a mem) l ep y.
       through (l * di) (\<lambda>y. zgemv CHR ''N'' di djk (- 1) (ptr_add A ep) di sdm 1 1 y 1) y"
  let ?I = "\<lambda>(A :: 'a mem) ep y. for_loop 0 dl (\<lambda>l (ep, svk). (ep + dijk, ?G A l ep svk)) (ep, y)"
  let ?H = "\<lambda>blk mat. CVHFtimerev_adbak_block X blk mat tao lstart lend istart iend nao"
  have l: "rha4_li_loop2 X A sdm tao nao ncomp lstart lend istart iend di dl djk dijk dil =
      for_loop 0 ncomp (\<lambda>ic (ep, vp, svk, vk).
           case ?I A ep (NPzset0 svk dil) of
             (ep', svk') \<Rightarrow> (ep', vp + nao * nao, svk', through vp (?H svk') vk))" for A
    by (simp add: rha4_li_loop2_def Let_def)
  show ?thesis
    unfolding l
  proof (rule comp_loop4_agree[where I = ?I and H = ?H and len = dil and blk = "dl * dijk", OF _ _ loc e v])
    show "\<And>A ep y. fst (?I A ep y) = ep + dl * dijk"
      using d(1) by (simp add: inner_ptr)
    show "\<And>ep y y'. agree_on ep (ep + dl * dijk) eri eri' \<Longrightarrow> agree_on 0 dil y y' \<Longrightarrow>
        agree_on 0 dil (snd (?I eri ep y)) (snd (?I eri' ep y'))"
      by (rule inner_agree[where G = ?G, OF _ d(2)])
        (simp_all add: through_agree zgemv_N_agree d(3))
  qed
qed

lemma rha2kl_lk_s1ij_component:
  fixes X :: "('a::{plus,times,zero,one}, 'c, 'd) collab" and shls ao_loc :: ints
  defines "istart \<equiv> ao_loc (shls 0)" and "iend \<equiv> ao_loc (shls 0 + 1)"
    and "jstart \<equiv> ao_loc (shls 1)" and "jend \<equiv> ao_loc (shls 1 + 1)"
    and "kstart \<equiv> ao_loc (shls 2)" and "kend \<equiv> ao_loc (shls 2 + 1)"
    and "lstart \<equiv> ao_loc (shls 3)" and "lend \<equiv> ao_loc (shls 3 + 1)"
  defines "D \<equiv> (iend - istart) * (jend - jstart) * (kend - kstart) * (lend - lstart)"
  assumes kl: "shls 3 < shls 2"
    and b: "0 \<le> istart" "iend \<le> nao" "0 \<le> jstart" "jend \<le> nao"
    and e: "agree_on (c * D) (c * D + D) eri eri'"
  shows "agree_on (c * (nao * nao)) (c * (nao * nao) + nao * nao)
     (projr (CVHFrha2kl_lk_s1ij X eri dm vj nao ncomp shls ao_loc tao dm_cond nbas dm_atleast))
     (projr (CVHFrha2kl_lk_s1ij X eri' dm vj nao ncomp shls ao_loc tao dm_cond nbas dm_atleast))"
proof -
  let ?dij = "(iend - istart) * (jend - jstart)" and ?dkl = "(kend - kstart) * (lend - lstart)"
  have D: "D = ?dij * ?dkl" by (simp add: D_def algebra_simps)
  have K: "CVHFrha2kl_lk_s1ij X A dm vj nao ncomp shls ao_loc tao dm_cond nbas dm_atleast =
      Inr (snd (snd (snd (rha2kl_lk_loop A
        (CVHFtimerev_ijminus X (uninit_sdm X) dm tao lstart lend kstart kend nao)
        nao ncomp istart iend jstart jend ?dij ?dkl (0, 0, uninit_svk X, vj)))))" for A
    using kl by (simp add: CVHFrha2kl_lk_s1ij_def LOCIJKL_def Let_def split_def istart_def iend_def
        jstart_def jend_def kstart_def kend_def lstart_def lend_def)
  show ?thesis
    unfolding K sum.sel
    by (rule rha2kl_lk_loop_agree[OF b refl]) (use e in \<open>simp_all add: D agree_on_def\<close>)
qed

lemma rha2kl_jk_s1il_returns:
  assumes "NDEBUG X \<or> shls 3 \<le> shls 2"
    and "CVHFrs1_jk_s1il X eri dm vk nao ncomp shls ao_loc tao dm_cond nbas dm_atleast = Some w"
  shows "\<exists>u. CVHFrha2kl_jk_s1il X eri dm vk nao ncomp shls ao_loc tao dm_cond nbas dm_atleast = Inr u"
  using assms by (simp add: CVHFrha2kl_jk_s1il_def LOCIJKL_def Let_def split_def callee_def)

lemma rha2kl_li_s1kj_returns:
  assumes "NDEBUG X \<or> shls 3 \<le> shls 2"
    and "CVHFrs1_li_s1kj X eri dm vk nao ncomp shls ao_loc tao dm_cond nbas dm_atleast = Some w"
  shows "\<exists>u. CVHFrha2kl_li_s1kj X eri dm vk nao ncomp shls ao_loc tao dm_cond nbas dm_atleast = Inr u"
  using assms by (simp add: CVHFrha2kl_li_s1kj_def LOCIJKL_def Let_def split_def callee_def)

lemma rha2kl_jk_s1il_component:
  fixes X :: "('a::{plus,times,zero,one,uminus}, 'c, 'd) collab" and shls ao_loc :: ints
  defines "istart \<equiv> ao_loc (shls 0)" and "iend \<equiv> ao_loc (shls 0 + 1)"
    and "jstart \<equiv> ao_loc (shls 1)" and "jend \<equiv> ao_loc (shls 1 + 1)"
    and "kstart \<equiv> ao_loc (shls 2)" and "kend \<equiv> ao_loc (shls 2 + 1)"
    and "lstart \<equiv> ao_loc (shls 3)" and "lend \<equiv> ao_loc (shls 3 + 1)"
  defines "D \<equiv> (iend - istart) * (jend - jstart) * (kend - kstart) * (lend - lstart)"
  assumes rs: "CVHFrs1_jk_s1il X eri dm vk nao ncomp shls ao_loc tao dm_cond nbas dm_atleast = Some w"
      "CVHFrs1_jk_s1il X eri' dm vk nao ncomp shls ao_loc tao dm_cond nbas dm_atleast = Some w'"
      "agree_on (c * (nao * nao)) (c * (nao * nao) + nao * nao) w w'"
    and loc: "mat_local (\<lambda>blk mat. CVHFtimerev_adbak_jT X blk mat tao istart iend kstart kend nao) nao
                ((iend - istart) * (kend - kstart))"
    and e: "agree_on ((ncomp + c) * D) ((ncomp + c) * D + D) eri eri'"
  shows "agree_on (c * (nao * nao)) (c * (nao * nao) + nao * nao)
     (projr (CVHFrha2kl_jk_s1il X eri dm vk nao ncomp shls ao_loc tao dm_cond nbas dm_atleast))
     (projr (CVHFrha2kl_jk_s1il X eri' dm vk nao ncomp shls ao_loc tao dm_cond nbas dm_atleast))"
proof -
  let ?dik = "(iend - istart) * (kend - kstart)" and ?djl = "(jend - jstart) * (lend - lstart)"
  have D: "D = ?dik * ?djl" by (simp add: D_def algebra_simps)
  consider "\<not> NDEBUG X \<and> \<not> shls 3 \<le> shls 2" | "shls 2 = shls 3"
    | "(NDEBUG X \<or> shls 3 \<le> shls 2) \<and> shls 2 \<noteq> shls 3" by linarith
  then show ?thesis
  proof cases
    case 1
    then show ?thesis by (simp add: CVHFrha2kl_jk_s1il_def agree_on_def)
  next
    case 2
    then show ?thesis using rs by (simp add: CVHFrha2kl_jk_s1il_def callee_def)
  next
    case 3
    have K: "CVHFrs1_jk_s1il X A dm vk nao ncomp shls ao_loc tao dm_cond nbas dm_atleast = Some u \<Longrightarrow>
      CVHFrha2kl_jk_s1il X A dm vk nao ncomp shls ao_loc tao dm_cond nbas dm_atleast =
      Inr (snd (snd (snd (snd (rha2kl_jk_loop X A
        (CVHFtimerev_jT X (uninit_sdm X) dm tao jstart jend lstart lend nao)
        tao nao ncomp istart iend kstart kend ?dik ?djl
        (0, ?dik * ?djl * ncomp, 0, uninit_svk X, u))))))" for A u
      using 3 by (simp add: CVHFrha2kl_jk_s1il_def LOCIJKL_def Let_def split_def callee_def
          istart_def iend_def jstart_def jend_def kstart_def kend_def lstart_def lend_def)
    show ?thesis
      unfolding K[OF rs(1)] K[OF rs(2)] sum.sel
      by (rule rha2kl_jk_loop_agree[OF loc _ rs(3)])
        (use e in \<open>simp add: D agree_on_def algebra_simps\<close>)
  qed
qed

lemma rha2kl_li_s1kj_component:
  fixes X :: "('a::{plus,times,zero,one,uminus}, 'c, 'd) collab" and shls ao_loc :: ints
  defines "istart \<equiv> ao_loc (shls 0)" and "iend \<equiv> ao_loc (shls 0 + 1)"
    and "jstart \<equiv> ao_loc (shls 1)" and "jend \<equiv> ao_loc (shls 1 + 1)"
    and "kstart \<equiv> ao_loc (shls 2)" and "kend \<equiv> ao_loc (shls 2 + 1)"
    and "lstart \<equiv> ao_loc (shls 3)" and "lend \<equiv> ao_loc (shls 3 + 1)"
  defines "D \<equiv> (iend - istart) * (jend - jstart) * (kend - kstart) * (lend - lstart)"
  assumes rs: "CVHFrs1_li_s1kj X eri dm vk nao ncomp shls ao_loc tao dm_cond nbas dm_atleast = Some w"
      "CVHFrs1_li_s1kj X eri' dm vk nao ncomp shls ao_loc tao dm_cond nbas dm_atleast = Some w'"
      "agree_on (c * (nao * nao)) (c * (nao * nao) + nao * nao) w w'"
    and loc: "mat_local (\<lambda>blk mat. CVHFtimerev_adbak_i X blk mat tao lstart lend jstart jend nao) nao
                ((lend - lstart) * (jend - jstart))"
    and e: "agree_on ((ncomp + c) * D) ((ncomp + c) * D + D) eri eri'"
  shows "agree_on (c * (nao * nao)) (c * (nao * nao) + nao * nao)
     (projr (CVHFrha2kl_li_s1kj X eri dm vk nao ncomp shls ao_loc tao dm_cond nbas dm_atleast))
     (projr (CVHFrha2kl_li_s1kj X eri' dm vk nao ncomp shls ao_loc tao dm_cond nbas dm_atleast))"
proof -
  let ?dik = "(iend - istart) * (kend - kstart)" and ?djl = "(jend - jstart) * (lend - lstart)"
  have D: "D = ?dik * ?djl" by (simp add: D_def algebra_simps)
  consider "\<not> NDEBUG X \<and> \<not> shls 3 \<le> shls 2" | "shls 2 = shls 3"
    | "(NDEBUG X \<or> shls 3 \<le> shls 2) \<and> shls 2 \<noteq> shls 3" by linarith
  then show ?thesis
  proof cases
    case 1
    then show ?thesis by (simp add: CVHFrha2kl_li_s1kj_def agree_on_def)
  next
    case 2
    then show ?thesis using rs by (simp add: CVHFrha2kl_li_s1kj_def callee_def)
  next
    case 3
    have K: "CVHFrs1_li_s1kj X A dm vk nao ncomp shls ao_loc tao dm_cond nbas dm_atleast = Some u \<Longrightarrow>
      CVHFrha2kl_li_s1kj X A dm vk nao ncomp shls ao_loc tao dm_cond nbas dm_atleast =
      Inr (snd (snd (snd (snd (rha2kl_li_loop X A
        (CVHFtimerev_i X (uninit_sdm X) dm tao kstart kend istart iend nao)
        tao nao ncomp lstart lend jstart jend ?dik ?djl (lend - lstart) (jend - jstart)
        (0, ?dik * ?djl * ncomp, 0, uninit_svk X, u))))))" for A u
      using 3 by (simp add: CVHFrha2kl_li_s1kj_def LOCIJKL_def Let_def split_def callee_def
          istart_def iend_def jstart_def jend_def kstart_def kend_def lstart_def lend_def)
    show ?thesis
      unfolding K[OF rs(1)] K[OF rs(2)] sum.sel
      by (rule rha2kl_li_loop_agree[OF loc _ rs(3)])
        (use e in \<open>simp add: D agree_on_def algebra_simps\<close>)
  qed
qed

lemma rha4_jk_s1il_component:
  fixes X :: "('a::{plus,times,zero,one,uminus}, 'c, 'd) collab" and shls ao_loc :: ints
  defines "istart \<equiv> ao_loc (shls 0)" and "iend \<equiv> ao_loc (shls 0 + 1)"
    and "jstart \<equiv> ao_loc (shls 1)" and "jend \<equiv> ao_loc (shls 1 + 1)"
    and "kstart \<equiv> ao_loc (shls 2)" and "kend \<equiv> ao_loc (shls 2 + 1)"
    and "lstart \<equiv> ao_loc (shls 3)" and "lend \<equiv> ao_loc (shls 3 + 1)"
  defines "D \<equiv> (iend - istart) * (jend - jstart) * (kend - kstart) * (lend - lstart)"
  assumes rs: "CVHFrs1_jk_s1il X eri dm vk nao ncomp shls ao_loc tao dm_cond nbas dm_atleast = Some w"
      "CVHFrs1_jk_s1il X eri' dm vk nao ncomp shls ao_loc tao dm_cond nbas dm_atleast = Some w'"
      "agree_on (c * (nao * nao)) (c * (nao * nao) + nao * nao) w w'"
    and loc_jT: "mat_local (\<lambda>blk mat. CVHFtimerev_adbak_jT X blk mat tao istart iend kstart kend nao) nao
                ((iend - istart) * (kend - kstart))"
    and loc_iT: "mat_local (\<lambda>blk mat. CVHFtimerev_adbak_iT X blk mat tao jstart jend lstart lend nao) nao
                ((jend - jstart) * (lend - lstart))"
    and loc_blockT: "mat_local (\<lambda>blk mat. CVHFtimerev_adbak_blockT X blk mat tao jstart jend kstart kend nao) nao
                ((jend - jstart) * (kend - kstart))"
    and dims: "istart \<le> iend" "jstart \<le> jend" "kstart \<le> kend" "lstart \<le> lend"
    and e1: "agree_on (c * D) (c * D + D) eri eri'"
    and e2: "agree_on ((ncomp + c) * D) ((ncomp + c) * D + D) eri eri'"
  shows "agree_on (c * (nao * nao)) (c * (nao * nao) + nao * nao)
     (projr (CVHFrha4_jk_s1il X eri dm vk nao ncomp shls ao_loc tao dm_cond nbas dm_atleast))
     (projr (CVHFrha4_jk_s1il X eri' dm vk nao ncomp shls ao_loc tao dm_cond nbas dm_atleast))"
proof (cases "NDEBUG X \<or> (shls 1 \<le> shls 0 \<and> shls 3 \<le> shls 2)")
  case False
  then show ?thesis by (auto simp: CVHFrha4_jk_s1il_def agree_on_def)
next
  case True
  let ?di = "iend - istart" and ?dj = "jend - jstart" and ?dk = "kend - kstart" and ?dl = "lend - lstart"
  let ?dik = "?di * ?dk" and ?djl = "?dj * ?dl" and ?djk = "?dj * ?dk"
  let ?dijk = "?dik * ?dj"
  have D: "D = ?dik * ?djl" "D = ?dl * ?dijk" by (simp_all add: D_def algebra_simps)
  obtain u where u: "CVHFrha2kl_jk_s1il X eri dm vk nao ncomp shls ao_loc tao dm_cond nbas dm_atleast = Inr u"
    using rha2kl_jk_s1il_returns[OF _ rs(1)] True by blast
  obtain u' where u': "CVHFrha2kl_jk_s1il X eri' dm vk nao ncomp shls ao_loc tao dm_cond nbas dm_atleast = Inr u'"
    using rha2kl_jk_s1il_returns[OF _ rs(2)] True by blast
  have uu: "agree_on (c * (nao * nao)) (c * (nao * nao) + nao * nao) u u'"
    using rha2kl_jk_s1il_component[OF rs loc_jT[unfolded istart_def iend_def kstart_def kend_def]
        e2[unfolded D_def istart_def iend_def jstart_def jend_def kstart_def kend_def lstart_def lend_def]]
    by (simp add: u u')
  let ?sdm1 = "CVHFtimerev_iT X (uninit_sdm X) dm tao istart iend kstart kend nao"
  let ?L1 = "\<lambda>A v. rha4_jk_loop1 X A ?sdm1 tao nao ncomp jstart jend lstart lend ?dik ?djl
                (0, ?dik * ?djl * ncomp, 0, uninit_svk X, v)"
  let ?sdm2 = "CVHFtimerev_blockT X ?sdm1 dm tao istart iend lstart lend nao"
  let ?L2 = "\<lambda>A s v. rha4_jk_loop2 X A ?sdm2 tao nao ncomp jstart jend kstart kend ?di ?dl ?djk ?dijk
                (0, 0, s, v)"
  have K: "CVHFrha2kl_jk_s1il X A dm vk nao ncomp shls ao_loc tao dm_cond nbas dm_atleast = Inr v \<Longrightarrow>
      CVHFrha4_jk_s1il X A dm vk nao ncomp shls ao_loc tao dm_cond nbas dm_atleast =
       Inr (if shls 0 = shls 1 then v
            else if shls 2 = shls 3 then snd (snd (snd (snd (?L1 A v))))
            else snd (snd (snd (?L2 A (fst (snd (snd (snd (?L1 A v)))))
                                     (snd (snd (snd (snd (?L1 A v)))))))))" for A v
    using True by (auto simp add: CVHFrha4_jk_s1il_def LOCIJKL_def Let_def split_def
          istart_def iend_def jstart_def jend_def kstart_def kend_def lstart_def lend_def)
  have l1: "agree_on (c * (nao * nao)) (c * (nao * nao) + nao * nao)
      (snd (snd (snd (snd (?L1 eri u))))) (snd (snd (snd (snd (?L1 eri' u')))))"
    by (rule rha4_jk_loop1_agree[OF loc_iT _ uu])
      (use e2 in \<open>simp add: D agree_on_def algebra_simps\<close>)
  have l2: "agree_on (c * (nao * nao)) (c * (nao * nao) + nao * nao)
      (snd (snd (snd (?L2 eri (fst (snd (snd (snd (?L1 eri u))))) (snd (snd (snd (snd (?L1 eri u)))))))))
      (snd (snd (snd (?L2 eri' (fst (snd (snd (snd (?L1 eri' u'))))) (snd (snd (snd (snd (?L1 eri' u')))))))))"
  proof (rule rha4_jk_loop2_agree[OF loc_blockT _ _ _ _ l1])
    show "0 \<le> ?dl" "0 \<le> ?dijk" using dims by simp_all
    show "?dijk = ?di * ?djk" by (simp add: algebra_simps)
    show "agree_on (c * (?dl * ?dijk)) (c * (?dl * ?dijk) + ?dl * ?dijk) eri eri'"
      using e1 by (simp add: D(2))
  qed
  show ?thesis
    unfolding K[OF u] K[OF u'] sum.sel using uu l1 l2 by simp
qed

lemma rha4_li_s1kj_component:
  fixes X :: "('a::{plus,times,zero,one,uminus}, 'c, 'd) collab" and shls ao_loc :: ints
  defines "istart \<equiv> ao_loc (shls 0)" and "iend \<equiv> ao_loc (shls 0 + 1)"
    and "jstart \<equiv> ao_loc (shls 1)" and "jend \<equiv> ao_loc (shls 1 + 1)"
    and "kstart \<equiv> ao_loc (shls 2)" and "kend \<equiv> ao_loc (shls 2 + 1)"
    and "lstart \<equiv> ao_loc (shls 3)" and "lend \<equiv> ao_loc (shls 3 + 1)"
  defines "D \<equiv> (iend - istart) * (jend - jstart) * (kend - kstart) * (lend - lstart)"
  assumes rs: "CVHFrs1_li_s1kj X eri dm vk nao ncomp shls ao_loc tao dm_cond nbas dm_atleast = Some w"
      "CVHFrs1_li_s1kj X eri' dm vk nao ncomp shls ao_loc tao dm_cond nbas dm_atleast = Some w'"
      "agree_on (c * (nao * nao)) (c * (nao * nao) + nao * nao) w w'"
    and loc_i: "mat_local (\<lambda>blk mat. CVHFtimerev_adbak_i X blk mat tao lstart lend jstart jend nao) nao
                ((lend - lstart) * (jend - jstart))"
    and loc_j: "mat_local (\<lambda>blk mat. CVHFtimerev_adbak_j X blk mat tao kstart kend istart iend nao) nao
                ((iend - istart) * (kend - kstart))"
    and loc_block: "mat_local (\<lambda>blk mat. CVHFtimerev_adbak_block X blk mat tao lstart lend istart iend nao) nao
                ((iend - istart) * (lend - lstart))"
    and dims: "istart \<le> iend" "jstart \<le> jend" "kstart \<le> kend" "lstart \<le> lend"
    and e1: "agree_on (c * D) (c * D + D) eri eri'"
    and e2: "agree_on ((ncomp + c) * D) ((ncomp + c) * D + D) eri eri'"
  shows "agree_on (c * (nao * nao)) (c * (nao * nao) + nao * nao)
     (projr (CVHFrha4_li_s1kj X eri dm vk nao ncomp shls ao_loc tao dm_cond nbas dm_atleast))
     (projr (CVHFrha4_li_s1kj X eri' dm vk nao ncomp shls ao_loc tao dm_cond nbas dm_atleast))"
proof (cases "NDEBUG X \<or> (shls 1 \<le> shls 0 \<and> shls 3 \<le> shls 2)")
  case False
  then show ?thesis by (auto simp: CVHFrha4_li_s1kj_def agree_on_def)
next
  case True
  let ?di = "iend - istart" and ?dj = "jend - jstart" and ?dk = "kend - kstart" and ?dl = "lend - lstart"
  let ?dik = "?di * ?dk" and ?djl = "?dj * ?dl" and ?djk = "?dj * ?dk" and ?dil = "?di * ?dl"
  let ?dijk = "?dik * ?dj"
  have D: "D = ?dik * ?djl" "D = ?dl * ?dijk" by (simp_all add: D_def algebra_simps)
  obtain u where u: "CVHFrha2kl_li_s1kj X eri dm vk nao ncomp shls ao_loc tao dm_cond nbas dm_atleast = Inr u"
    using rha2kl_li_s1kj_returns[OF _ rs(1)] True by blast
  obtain u' where u': "CVHFrha2kl_li_s1kj X eri' dm vk nao ncomp shls ao_loc tao dm_cond nbas dm_atleast = Inr u'"
    using rha2kl_li_s1kj_returns[OF _ rs(2)] True by blast
  have uu: "agree_on (c * (nao * nao)) (c * (nao * nao) + nao * nao) u u'"
    using rha2kl_li_s1kj_component[OF rs loc_i[unfolded lstart_def lend_def jstart_def jend_def]
        e2[unfolded D_def istart_def iend_def jstart_def jend_def kstart_def kend_def lstart_def lend_def]]
    by (simp add: u u')
  let ?sdm1 = "CVHFtimerev_j X (uninit_sdm X) dm tao lstart lend jstart jend nao"
  let ?L1 = "\<lambda>A v. rha4_li_loop1 X A ?sdm1 tao nao ncomp kstart kend istart iend ?dik ?djl
                (0, ?dik * ?djl * ncomp, 0, uninit_svk X, v)"
  let ?sdm2 = "CVHFtimerev_block X ?sdm1 dm tao kstart kend jstart jend nao"
  let ?L2 = "\<lambda>A s v. rha4_li_loop2 X A ?sdm2 tao nao ncomp lstart lend istart iend ?di ?dl ?djk ?dijk ?dil
                (0, 0, s, v)"
  have K: "CVHFrha2kl_li_s1kj X A dm vk nao ncomp shls ao_loc tao dm_cond nbas dm_atleast = Inr v \<Longrightarrow>
      CVHFrha4_li_s1kj X A dm vk nao ncomp shls ao_loc tao dm_cond nbas dm_atleast =
       Inr (if shls 0 = shls 1 then v
            else if shls 2 = shls 3 then snd (snd (snd (snd (?L1 A v))))
            else snd (snd (snd (?L2 A (fst (snd (snd (snd (?L1 A v)))))
                                     (snd (snd (snd (snd (?L1 A v)))))))))" for A v
    using True by (auto simp add: CVHFrha4_li_s1kj_def LOCIJKL_def Let_def split_def
          istart_def iend_def jstart_def jend_def kstart_def kend_def lstart_def lend_def)
  have l1: "agree_on (c * (nao * nao)) (c * (nao * nao) + nao * nao)
      (snd (snd (snd (snd (?L1 eri u))))) (snd (snd (snd (snd (?L1 eri' u')))))"
    by (rule rha4_li_loop1_agree[OF loc_j _ uu])
      (use e2 in \<open>simp add: D agree_on_def algebra_simps\<close>)
  have l2: "agree_on (c * (nao * nao)) (c * (nao * nao) + nao * nao)
      (snd (snd (snd (?L2 eri (fst (snd (snd (snd (?L1 eri u))))) (snd (snd (snd (snd (?L1 eri u)))))))))
      (snd (snd (snd (?L2 eri' (fst (snd (snd (snd (?L1 eri' u'))))) (snd (snd (snd (snd (?L1 eri' u')))))))))"
  proof (rule rha4_li_loop2_agree[OF loc_block _ _ _ _ l1])
    show "0 \<le> ?dl" "0 \<le> ?dijk" using dims by simp_all
    show "?dijk = ?di * ?djk" by (simp add: algebra_simps)
    show "agree_on (c * (?dl * ?dijk)) (c * (?dl * ?dijk) + ?dl * ?dijk) eri eri'"
      using e1 by (simp add: D(2))
  qed
  show ?thesis
    unfolding K[OF u] K[OF u'] sum.sel using uu l1 l2 by simp
qed

text \<open>
  Claim C8, as amended. The claim says that component \<open>ic\<close> of each kernel reads only the
  \<open>ic\<close>-th sub-block of \<open>di*dj*dk*dl\<close> cells of the integral buffer. This holds for the
  J-build kernel \<^verbatim>\<open>CVHFrha2kl_lk_s1ij\<close>. The K-build kernels read through \<^verbatim>\<open>p0213\<close>, which
  starts at \<^verbatim>\<open>eri + dik*djl*ncomp\<close>: the buffer holds a second copy of the \<open>ncomp\<close>
  blocks behind the first, and component \<open>ic\<close> of the extra term of
  \<^verbatim>\<open>CVHFrha2kl_jk_s1il\<close> and \<^verbatim>\<open>CVHFrha2kl_li_s1kj\<close> reads sub-block \<open>ncomp + ic\<close>; the
  rha4 K-build kernels read sub-block \<open>ncomp + ic\<close> in their first extra term and
  sub-block \<open>ic\<close> in their second. What holds for every kernel is the independence of the
  components: when two integral buffers agree on the sub-blocks of component \<open>c\<close> (as just
  listed), the \<open>c\<close>-th \<open>nao\<close> by \<open>nao\<close> output matrices of the two runs are equal, whatever
  the other sub-blocks hold. For the K-build kernels this needs that the delegated
  \<^verbatim>\<open>CVHFrs1\<close> call returns \<open>c\<close>-th matrices that are equal in the two runs, and that the
  \<^verbatim>\<open>CVHFtimerev_adbak\<close> helpers stay within the matrix they are handed; for the rha4
  kernels also that the shells' AO ranges are not negative.
\<close>

theorem rha_components_independent:
  fixes X :: "('a::{plus,times,zero,one,uminus}, 'c, 'd) collab" and shls ao_loc tao :: ints
    and eri eri' dm v w w' :: "'a mem" and nao ncomp nbas c :: int and dm_cond :: 'c and dm_atleast :: 'd
  defines "istart \<equiv> ao_loc (shls 0)" and "iend \<equiv> ao_loc (shls 0 + 1)"
    and "jstart \<equiv> ao_loc (shls 1)" and "jend \<equiv> ao_loc (shls 1 + 1)"
    and "kstart \<equiv> ao_loc (shls 2)" and "kend \<equiv> ao_loc (shls 2 + 1)"
    and "lstart \<equiv> ao_loc (shls 3)" and "lend \<equiv> ao_loc (shls 3 + 1)"
  defines "D \<equiv> (iend - istart) * (jend - jstart) * (kend - kstart) * (lend - lstart)"
  shows
   "(shls 3 < shls 2 \<and> 0 \<le> istart \<and> iend \<le> nao \<and> 0 \<le> jstart \<and> jend \<le> nao \<and>
     agree_on (c * D) (c * D + D) eri eri' \<longrightarrow>
       agree_on (c * (nao * nao)) (c * (nao * nao) + nao * nao)
         (projr (CVHFrha2kl_lk_s1ij X eri dm v nao ncomp shls ao_loc tao dm_cond nbas dm_atleast))
         (projr (CVHFrha2kl_lk_s1ij X eri' dm v nao ncomp shls ao_loc tao dm_cond nbas dm_atleast))) \<and>
    (CVHFrs1_jk_s1il X eri dm v nao ncomp shls ao_loc tao dm_cond nbas dm_atleast = Some w \<and>
     CVHFrs1_jk_s1il X eri' dm v nao ncomp shls ao_loc tao dm_cond nbas dm_atleast = Some w' \<and>
     agree_on (c * (nao * nao)) (c * (nao * nao) + nao * nao) w w' \<and>
     mat_local (\<lambda>blk mat. CVHFtimerev_adbak_jT X blk mat tao istart iend kstart kend nao) nao
       ((iend - istart) * (kend - kstart)) \<and>
     agree_on ((ncomp + c) * D) ((ncomp + c) * D + D) eri eri' \<longrightarrow>
       agree_on (c * (nao * nao)) (c * (nao * nao) + nao * nao)
         (projr (CVHFrha2kl_jk_s1il X eri dm v nao ncomp shls ao_loc tao dm_cond nbas dm_atleast))
         (projr (CVHFrha2kl_jk_s1il X eri' dm v nao ncomp shls ao_loc tao dm_cond nbas dm_atleast))) \<and>
    (CVHFrs1_li_s1kj X eri dm v nao ncomp shls ao_loc tao dm_cond nbas dm_atleast = Some w \<and>
     CVHFrs1_li_s1kj X eri' dm v nao ncomp shls ao_loc tao dm_cond nbas dm_atleast = Some w' \<and>
     agree_on (c * (nao * nao)) (c * (nao * nao) + nao * nao) w w' \<and>
     mat_local (\<lambda>blk mat. CVHFtimerev_adbak_i X blk mat tao lstart lend jstart jend nao) nao
       ((lend - lstart) * (jend - jstart)) \<and>
     agree_on ((ncomp + c) * D) ((ncomp + c) * D + D) eri eri' \<longrightarrow>
       agree_on (c * (nao * nao)) (c * (nao * nao) + nao * nao)
         (projr (CVHFrha2kl_li_s1kj X eri dm v nao ncomp shls ao_loc tao dm_cond nbas dm_atleast))
         (projr (CVHFrha2kl_li_s1kj X eri' dm v nao ncomp shls ao_loc tao dm_cond nbas dm_atleast))) \<and>
    (CVHFrs1_jk_s1il X eri dm v nao ncomp shls ao_loc tao dm_cond nbas dm_atleast = Some w \<and>
     CVHFrs1_jk_s1il X eri' dm v nao ncomp shls ao_loc tao dm_cond nbas dm_atleast = Some w' \<and>
     agree_on (c * (nao * nao)) (c * (nao * nao) + nao * nao) w w' \<and>
     mat_local (\<lambda>blk mat. CVHFtimerev_adbak_jT X blk mat tao istart iend kstart kend nao) nao
       ((iend - istart) * (kend - kstart)) \<and>
     mat_local (\<lambda>blk mat. CVHFtimerev_adbak_iT X blk mat tao jstart jend lstart lend nao) nao
       ((jend - jstart) * (lend - lstart)) \<and>
     mat_local (\<lambda>blk mat. CVHFtimerev_adbak_blockT X blk mat tao jstart jend kstart kend nao) nao
       ((jend - jstart) * (kend - kstart)) \<and>
     istart \<le> iend \<and> jstart \<le> jend \<and> kstart \<le> kend \<and> lstart \<le> lend \<and>
     agree_on (c * D) (c * D + D) eri eri' \<and>
     agree_on ((ncomp + c) * D) ((ncomp + c) * D + D) eri eri' \<longrightarrow>
       agree_on (c * (nao * nao)) (c * (nao * nao) + nao * nao)
         (projr (CVHFrha4_jk_s1il X eri dm v nao ncomp shls ao_loc tao dm_cond nbas dm_atleast))
         (projr (CVHFrha4_jk_s1il X eri' dm v nao ncomp shls ao_loc tao dm_cond nbas dm_atleast))) \<and>
    (CVHFrs1_li_s1kj X eri dm v nao ncomp shls ao_loc tao dm_cond nbas dm_atleast = Some w \<and>
     CVHFrs1_li_s1kj X eri' dm v nao ncomp shls ao_loc tao dm_cond nbas dm_atleast = Some w' \<and>
     agree_on (c * (nao * nao)) (c * (nao * nao) + nao * nao) w w' \<and>
     mat_local (\<lambda>blk mat. CVHFtimerev_adbak_i X blk mat tao lstart lend jstart jend nao) nao
       ((lend - lstart) * (jend - jstart)) \<and>
     mat_local (\<lambda>blk mat. CVHFtimerev_adbak_j X blk mat tao kstart kend istart iend nao) nao
       ((iend - istart) * (kend - kstart)) \<and>
     mat_local (\<lambda>blk mat. CVHFtimerev_adbak_block X blk mat tao lstart lend istart iend nao) nao
       ((iend - istart) * (lend - lstart)) \<and>
     istart \<le> iend \<and> jstart \<le> jend \<and> kstart \<le> kend \<and> lstart \<le> lend \<and>
     agree_on (c * D) (c * D + D) eri eri' \<and>
     agree_on ((ncomp + c) * D) ((ncomp + c) * D + D) eri eri' \<longrightarrow>
       agree_on (c * (nao * nao)) (c * (nao * nao) + nao * nao)
         (projr (CVHFrha4_li_s1kj X eri dm v nao ncomp shls ao_loc tao dm_cond nbas dm_atleast))
         (projr (CVHFrha4_li_s1kj X eri' dm v nao ncomp shls ao_loc tao dm_cond nbas dm_atleast)))"
proof (intro conjI impI; elim conjE)
  note defs = D_def istart_def iend_def jstart_def jend_def kstart_def kend_def lstart_def lend_def
  {
    assume "shls 3 < shls 2" "0 \<le> istart" "iend \<le> nao" "0 \<le> jstart" "jend \<le> nao"
      "agree_on (c * D) (c * D + D) eri eri'"
    then show "agree_on (c * (nao * nao)) (c * (nao * nao) + nao * nao)
         (projr (CVHFrha2kl_lk_s1ij X eri dm v nao ncomp shls ao_loc tao dm_cond nbas dm_atleast))
         (projr (CVHFrha2kl_lk_s1ij X eri' dm v nao ncomp shls ao_loc tao dm_cond nbas dm_atleast))"
      unfolding defs by (rule rha2kl_lk_s1ij_component)
  next
    assume "CVHFrs1_jk_s1il X eri dm v nao ncomp shls ao_loc tao dm_cond nbas dm_atleast = Some w"
     "CVHFrs1_jk_s1il X eri' dm v nao ncomp shls ao_loc tao dm_cond nbas dm_atleast = Some w'"
     "agree_on (c * (nao * nao)) (c * (nao * nao) + nao * nao) w w'"
     "mat_local (\<lambda>blk mat. CVHFtimerev_adbak_jT X blk mat tao istart iend kstart kend nao) nao
       ((iend - istart) * (kend - kstart))"
     "agree_on ((ncomp + c) * D) ((ncomp + c) * D + D) eri eri'"
    then show "agree_on (c * (nao * nao)) (c * (nao * nao) + nao * nao)
         (projr (CVHFrha2kl_jk_s1il X eri dm v nao ncomp shls ao_loc tao dm_cond nbas dm_atleast))
         (projr (CVHFrha2kl_jk_s1il X eri' dm v nao ncomp shls ao_loc tao dm_cond nbas dm_atleast))"
      unfolding defs by (rule rha2kl_jk_s1il_component)
  next
    assume "CVHFrs1_li_s1kj X eri dm v nao ncomp shls ao_loc tao dm_cond nbas dm_atleast = Some w"
     "CVHFrs1_li_s1kj X eri' dm v nao ncomp shls ao_loc tao dm_cond nbas dm_atleast = Some w'"
     "agree_on (c * (nao * nao)) (c * (nao * nao) + nao * nao) w w'"
     "mat_local (\<lambda>blk mat. CVHFtimerev_adbak_i X blk mat tao lstart lend jstart jend nao) nao
       ((lend - lstart) * (jend - jstart))"
     "agree_on ((ncomp + c) * D) ((ncomp + c) * D + D) eri eri'"
    then show "agree_on (c * (nao * nao)) (c * (nao * nao) + nao * nao)
         (projr (CVHFrha2kl_li_s1kj X eri dm v nao ncomp shls ao_loc tao dm_cond nbas dm_atleast))
         (projr (CVHFrha2kl_li_s1kj X eri' dm v nao ncomp shls ao_loc tao dm_cond nbas dm_atleast))"
      unfolding defs by (rule rha2kl_li_s1kj_component)
  next
    assume "CVHFrs1_jk_s1il X eri dm v nao ncomp shls ao_loc tao dm_cond nbas dm_atleast = Some w"
     "CVHFrs1_jk_s1il X eri' dm v nao ncomp shls ao_loc tao dm_cond nbas dm_atleast = Some w'"
     "agree_on (c * (nao * nao)) (c * (nao * nao) + nao * nao) w w'"
     "mat_local (\<lambda>blk mat. CVHFtimerev_adbak_jT X blk mat tao istart iend kstart kend nao) nao
       ((iend - istart) * (kend - kstart))"
     "mat_local (\<lambda>blk mat. CVHFtimerev_adbak_iT X blk mat tao jstart jend lstart lend nao) nao
       ((jend - jstart) * (lend - lstart))"
     "mat_local (\<lambda>blk mat. CVHFtimerev_adbak_blockT X blk mat tao jstart jend kstart kend nao) nao
       ((jend - jstart) * (kend - kstart))"
     "istart \<le> iend" "jstart \<le> jend" "kstart \<le> kend" "lstart \<le> lend"
     "agree_on (c * D) (c * D + D) eri eri'"
     "agree_on ((ncomp + c) * D) ((ncomp + c) * D + D) eri eri'"
    then show "agree_on (c * (nao * nao)) (c * (nao * nao) + nao * nao)
         (projr (CVHFrha4_jk_s1il X eri dm v nao ncomp shls ao_loc tao dm_cond nbas dm_atleast))
         (projr (CVHFrha4_jk_s1il X eri' dm v nao ncomp shls ao_loc tao dm_cond nbas dm_atleast))"
      unfolding defs by (rule rha4_jk_s1il_component)
  next
    assume "CVHFrs1_li_s1kj X eri dm v nao ncomp shls ao_loc tao dm_cond nbas dm_atleast = Some w"
     "CVHFrs1_li_s1kj X eri' dm v nao ncomp shls ao_loc tao dm_cond nbas dm_atleast = Some w'"
     "agree_on (c * (nao * nao)) (c * (nao * nao) + nao * nao) w w'"
     "mat_local (\<lambda>blk mat. CVHFtimerev_adbak_i X blk mat tao lstart lend jstart jend nao) nao
       ((lend - lstart) * (jend - jstart))"
     "mat_local (\<lambda>blk mat. CVHFtimerev_adbak_j X blk mat tao kstart kend istart iend nao) nao
       ((iend - istart) * (kend - kstart))"
     "mat_local (\<lambda>blk mat. CVHFtimerev_adbak_block X blk mat tao lstart lend istart iend nao) nao
       ((iend - istart) * (lend - lstart))"
     "istart \<le> iend" "jstart \<le> jend" "kstart \<le> kend" "lstart \<le> lend"
     "agree_on (c * D) (c * D + D) eri eri'"
     "agree_on ((ncomp + c) * D) ((ncomp + c) * D + D) eri eri'"
    then show "agree_on (c * (nao * nao)) (c * (nao * nao) + nao * nao)
         (projr (CVHFrha4_li_s1kj X eri dm v nao ncomp shls ao_loc tao dm_cond nbas dm_atleast))
         (projr (CVHFrha4_li_s1kj X eri' dm v nao ncomp shls ao_loc tao dm_cond nbas dm_atleast))"
      unfolding defs by (rule rha4_li_s1kj_component)
  }
qed

theorem rha_components_independent_witness:
  "shells 1 0 1 0 3 < shells 1 0 1 0 2 \<and>
   agree_on (0 * 1) (0 * 1 + 1) (\<lambda>p. of_int p + 1) (\<lambda>p. if p = 0 \<or> p = 2 then of_int p + 1 else (7::complex)) \<and>
   agree_on ((2 + 0) * 1) ((2 + 0) * 1 + 1) (\<lambda>p. of_int p + 1) (\<lambda>p. if p = 0 \<or> p = 2 then of_int p + 1 else (7::complex)) \<and>
   mat_local (\<lambda>blk mat. CVHFtimerev_adbak_jT (demo :: (complex, unit, unit) collab) blk mat (\<lambda>p. 1) 1 2 1 2 2) 2 1 \<and>
   agree_on (0 * (2 * 2)) (0 * (2 * 2) + 2 * 2)
     (projr (CVHFrha2kl_lk_s1ij (demo :: (complex, unit, unit) collab) (\<lambda>p. of_int p + 1)
        (\<lambda>p. of_int p + 2) (\<lambda>p. 0) 2 2 (shells 1 0 1 0) one_ao_each (\<lambda>p. 1) () 2 ()))
     (projr (CVHFrha2kl_lk_s1ij demo (\<lambda>p. if p = 0 \<or> p = 2 then of_int p + 1 else 7)
        (\<lambda>p. of_int p + 2) (\<lambda>p. 0) 2 2 (shells 1 0 1 0) one_ao_each (\<lambda>p. 1) () 2 ())) \<and>
   agree_on (0 * (2 * 2)) (0 * (2 * 2) + 2 * 2)
     (projr (CVHFrha2kl_jk_s1il (demo :: (complex, unit, unit) collab) (\<lambda>p. of_int p + 1)
        (\<lambda>p. of_int p + 2) (\<lambda>p. 0) 2 2 (shells 1 0 1 0) one_ao_each (\<lambda>p. 1) () 2 ()))
     (projr (CVHFrha2kl_jk_s1il demo (\<lambda>p. if p = 0 \<or> p = 2 then of_int p + 1 else 7)
        (\<lambda>p. of_int p + 2) (\<lambda>p. 0) 2 2 (shells 1 0 1 0) one_ao_each (\<lambda>p. 1) () 2 ())) \<and>
   agree_on (0 * (2 * 2)) (0 * (2 * 2) + 2 * 2)
     (projr (CVHFrha2kl_li_s1kj (demo :: (complex, unit, unit) collab) (\<lambda>p. of_int p + 1)
        (\<lambda>p. of_int p + 2) (\<lambda>p. 0) 2 2 (shells 1 0 1 0) one_ao_each (\<lambda>p. 1) () 2 ()))
     (projr (CVHFrha2kl_li_s1kj demo (\<lambda>p. if p = 0 \<or> p = 2 then of_int p + 1 else 7)
        (\<lambda>p. of_int p + 2) (\<lambda>p. 0) 2 2 (shells 1 0 1 0) one_ao_each (\<lambda>p. 1) () 2 ())) \<and>
   agree_on (0 * (2 * 2)) (0 * (2 * 2) + 2 * 2)
     (projr (CVHFrha4_jk_s1il (demo :: (complex, unit, unit) collab) (\<lambda>p. of_int p + 1)
        (\<lambda>p. of_int p + 2) (\<lambda>p. 0) 2 2 (shells 1 0 1 0) one_ao_each (\<lambda>p. 1) () 2 ()))
     (projr (CVHFrha4_jk_s1il demo (\<lambda>p. if p = 0 \<or> p = 2 then of_int p + 1 else 7)
        (\<lambda>p. of_int p + 2) (\<lambda>p. 0) 2 2 (shells 1 0 1 0) one_ao_each (\<lambda>p. 1) () 2 ())) \<and>
   agree_on (0 * (2 * 2)) (0 * (2 * 2) + 2 * 2)
     (projr (CVHFrha4_li_s1kj (demo :: (complex, unit, unit) collab) (\<lambda>p. of_int p + 1)
        (\<lambda>p. of_int p + 2) (\<lambda>p. 0) 2 2 (shells 1 0 1 0) one_ao_each (\<lambda>p. 1) () 2 ()))
     (projr (CVHFrha4_li_s1kj demo (\<lambda>p. if p = 0 \<or> p = 2 then of_int p + 1 else 7)
        (\<lambda>p. of_int p + 2) (\<lambda>p. 0) 2 2 (shells 1 0 1 0) one_ao_each (\<lambda>p. 1) () 2 ())) \<and>
   projr (CVHFrha4_jk_s1il (demo :: (complex, unit, unit) collab) (\<lambda>p. of_int p + 1)
        (\<lambda>p. of_int p + 2) (\<lambda>p. 0) 2 2 (shells 1 0 1 0) one_ao_each (\<lambda>p. 1) () 2 ()) 0 = 15 \<and>
   projr (CVHFrha4_jk_s1il (demo :: (complex, unit, unit) collab)
        (\<lambda>p. if p = 0 \<or> p = 2 then of_int p + 1 else 7)
        (\<lambda>p. of_int p + 2) (\<lambda>p. 0) 2 2 (shells 1 0 1 0) one_ao_each (\<lambda>p. 1) () 2 ()) 0 = 15"
proof -
  let ?e = "\<lambda>p. of_int p + (1::complex)"
  let ?e' = "\<lambda>p. if p = 0 \<or> p = 2 then of_int p + 1 else (7::complex)"
  have h: "shells 1 0 1 0 3 < shells 1 0 1 0 2" by (simp add: shells_def)
  have e1: "agree_on (0 * 1) (0 * 1 + 1) ?e ?e'" and e2: "agree_on ((2 + 0) * 1) ((2 + 0) * 1 + 1) ?e ?e'"
    by (simp_all add: agree_on_def)
  have ml: "mat_local (\<lambda>blk (mat :: complex mem). adbak_blockT mat blk 2 1 2 1 2) 2 1"
    "mat_local (\<lambda>blk (mat :: complex mem). adbak_blockT mat blk 2 0 1 0 1) 2 1"
    "mat_local (\<lambda>blk (mat :: complex mem). adbak_blockT mat blk 2 0 1 1 2) 2 1"
    using adbak_blockT_local[of 1 2 2 1 2] adbak_blockT_local[of 0 1 2 0 1]
      adbak_blockT_local[of 0 1 2 1 2] by simp_all
  have mj: "mat_local (\<lambda>blk mat. CVHFtimerev_adbak_jT (demo :: (complex, unit, unit) collab) blk mat (\<lambda>p. 1) 1 2 1 2 2) 2 1"
    using ml by (simp add: demo_def demo_adbak_def)
  note T = rha_components_independent[where X = "demo :: (complex, unit, unit) collab"
      and shls = "shells 1 0 1 0" and ao_loc = one_ao_each and tao = "\<lambda>p. 1"
      and eri = ?e and eri' = ?e' and dm = "\<lambda>p. of_int p + 2" and v = "\<lambda>p. 0"
      and w = "\<lambda>p. 0" and w' = "\<lambda>p. 0" and nao = 2 and ncomp = 2 and nbas = 2 and c = 0
      and dm_cond = "()" and dm_atleast = "()"]
  have c1: "agree_on (0 * (2 * 2)) (0 * (2 * 2) + 2 * 2)
     (projr (CVHFrha2kl_lk_s1ij (demo :: (complex, unit, unit) collab) ?e
        (\<lambda>p. of_int p + 2) (\<lambda>p. 0) 2 2 (shells 1 0 1 0) one_ao_each (\<lambda>p. 1) () 2 ()))
     (projr (CVHFrha2kl_lk_s1ij demo ?e'
        (\<lambda>p. of_int p + 2) (\<lambda>p. 0) 2 2 (shells 1 0 1 0) one_ao_each (\<lambda>p. 1) () 2 ()))"
    by (rule T[THEN conjunct1, THEN mp]) (simp add: shells_def one_ao_each_def agree_on_def)
  have c2: "agree_on (0 * (2 * 2)) (0 * (2 * 2) + 2 * 2)
     (projr (CVHFrha2kl_jk_s1il (demo :: (complex, unit, unit) collab) ?e
        (\<lambda>p. of_int p + 2) (\<lambda>p. 0) 2 2 (shells 1 0 1 0) one_ao_each (\<lambda>p. 1) () 2 ()))
     (projr (CVHFrha2kl_jk_s1il demo ?e'
        (\<lambda>p. of_int p + 2) (\<lambda>p. 0) 2 2 (shells 1 0 1 0) one_ao_each (\<lambda>p. 1) () 2 ()))"
    by (rule T[THEN conjunct2, THEN conjunct1, THEN mp])
      (simp add: demo_def demo_adbak_def demo_rs_none_def shells_def one_ao_each_def ml, simp add: agree_on_def)
  have c3: "agree_on (0 * (2 * 2)) (0 * (2 * 2) + 2 * 2)
     (projr (CVHFrha2kl_li_s1kj (demo :: (complex, unit, unit) collab) ?e
        (\<lambda>p. of_int p + 2) (\<lambda>p. 0) 2 2 (shells 1 0 1 0) one_ao_each (\<lambda>p. 1) () 2 ()))
     (projr (CVHFrha2kl_li_s1kj demo ?e'
        (\<lambda>p. of_int p + 2) (\<lambda>p. 0) 2 2 (shells 1 0 1 0) one_ao_each (\<lambda>p. 1) () 2 ()))"
    by (rule T[THEN conjunct2, THEN conjunct2, THEN conjunct1, THEN mp])
      (simp add: demo_def demo_adbak_def demo_rs_none_def shells_def one_ao_each_def ml, simp add: agree_on_def)
  have c4: "agree_on (0 * (2 * 2)) (0 * (2 * 2) + 2 * 2)
     (projr (CVHFrha4_jk_s1il (demo :: (complex, unit, unit) collab) ?e
        (\<lambda>p. of_int p + 2) (\<lambda>p. 0) 2 2 (shells 1 0 1 0) one_ao_each (\<lambda>p. 1) () 2 ()))
     (projr (CVHFrha4_jk_s1il demo ?e'
        (\<lambda>p. of_int p + 2) (\<lambda>p. 0) 2 2 (shells 1 0 1 0) one_ao_each (\<lambda>p. 1) () 2 ()))"
    by (rule T[THEN conjunct2, THEN conjunct2, THEN conjunct2, THEN conjunct1, THEN mp])
      (simp add: demo_def demo_adbak_def demo_rs_none_def shells_def one_ao_each_def ml, simp add: agree_on_def)
  have c5: "agree_on (0 * (2 * 2)) (0 * (2 * 2) + 2 * 2)
     (projr (CVHFrha4_li_s1kj (demo :: (complex, unit, unit) collab) ?e
        (\<lambda>p. of_int p + 2) (\<lambda>p. 0) 2 2 (shells 1 0 1 0) one_ao_each (\<lambda>p. 1) () 2 ()))
     (projr (CVHFrha4_li_s1kj demo ?e'
        (\<lambda>p. of_int p + 2) (\<lambda>p. 0) 2 2 (shells 1 0 1 0) one_ao_each (\<lambda>p. 1) () 2 ()))"
    by (rule T[THEN conjunct2, THEN conjunct2, THEN conjunct2, THEN conjunct2, THEN mp])
      (simp add: demo_def demo_adbak_def demo_rs_none_def shells_def one_ao_each_def ml, simp add: agree_on_def)
  have v: "projr (CVHFrha4_jk_s1il (demo :: (complex, unit, unit) collab) ?e
        (\<lambda>p. of_int p + 2) (\<lambda>p. 0) 2 2 (shells 1 0 1 0) one_ao_each (\<lambda>p. 1) () 2 ()) 0 = 15"
    by (simp add: kernel_defs demo_defs for_loop.simps Let_def)
  have v': "projr (CVHFrha4_jk_s1il (demo :: (complex, unit, unit) collab) ?e'
        (\<lambda>p. of_int p + 2) (\<lambda>p. 0) 2 2 (shells 1 0 1 0) one_ao_each (\<lambda>p. 1) () 2 ()) 0 = 15"
    using agree_onD[OF c4, of 0] v by simp
  show ?thesis using h e1 e2 mj c1 c2 c3 c4 c5 v v' by (intro conjI)
qed

text \<open>
  The claim as stated fails for \<^verbatim>\<open>CVHFrha2kl_jk_s1il\<close>. One component, two shells of one
  AO each, \<open>shls = {0,0,1,0}\<close>, so that a sub-block is one cell: two integral buffers that
  agree on sub-block 0 (cell 0) and differ in cell 1, the start of the second copy, give
  different output matrices (cell 1 of \<open>vk\<close> is 0 in one run and -1 in the other).
\<close>

theorem rha2kl_jk_reads_second_copy_counterexample:
  "agree_on (0 * 1) (0 * 1 + 1) (\<lambda>p. 0) (\<lambda>p. if p = 1 then 1 else (0::complex)) \<and>
   projr (CVHFrha2kl_jk_s1il (demo :: (complex, unit, unit) collab) (\<lambda>p. 0)
        (\<lambda>p. 1) (\<lambda>p. 0) 2 1 (shells 0 0 1 0) one_ao_each (\<lambda>p. 1) () 2 ()) 1 = 0 \<and>
   projr (CVHFrha2kl_jk_s1il (demo :: (complex, unit, unit) collab) (\<lambda>p. if p = 1 then 1 else 0)
        (\<lambda>p. 1) (\<lambda>p. 0) 2 1 (shells 0 0 1 0) one_ao_each (\<lambda>p. 1) () 2 ()) 1 = - 1 \<and>
   \<not> agree_on (0 * (2 * 2)) (0 * (2 * 2) + 2 * 2)
     (projr (CVHFrha2kl_jk_s1il (demo :: (complex, unit, unit) collab) (\<lambda>p. 0)
        (\<lambda>p. 1) (\<lambda>p. 0) 2 1 (shells 0 0 1 0) one_ao_each (\<lambda>p. 1) () 2 ()))
     (projr (CVHFrha2kl_jk_s1il (demo :: (complex, unit, unit) collab) (\<lambda>p. if p = 1 then 1 else 0)
        (\<lambda>p. 1) (\<lambda>p. 0) 2 1 (shells 0 0 1 0) one_ao_each (\<lambda>p. 1) () 2 ()))"
proof -
  have a: "agree_on (0 * 1) (0 * 1 + 1) (\<lambda>p. 0) (\<lambda>p. if p = 1 then 1 else (0::complex))"
    by (simp add: agree_on_def)
  have v0: "projr (CVHFrha2kl_jk_s1il (demo :: (complex, unit, unit) collab) (\<lambda>p. 0)
        (\<lambda>p. 1) (\<lambda>p. 0) 2 1 (shells 0 0 1 0) one_ao_each (\<lambda>p. 1) () 2 ()) 1 = 0"
    by (simp add: kernel_defs demo_defs for_loop.simps Let_def)
  have v1: "projr (CVHFrha2kl_jk_s1il (demo :: (complex, unit, unit) collab) (\<lambda>p. if p = 1 then 1 else 0)
        (\<lambda>p. 1) (\<lambda>p. 0) 2 1 (shells 0 0 1 0) one_ao_each (\<lambda>p. 1) () 2 ()) 1 = - 1"
    by (simp add: kernel_defs demo_defs for_loop.simps Let_def)
  have "\<not> agree_on (0 * (2 * 2)) (0 * (2 * 2) + 2 * 2)
     (projr (CVHFrha2kl_jk_s1il (demo :: (complex, unit, unit) collab) (\<lambda>p. 0)
        (\<lambda>p. 1) (\<lambda>p. 0) 2 1 (shells 0 0 1 0) one_ao_each (\<lambda>p. 1) () 2 ()))
     (projr (CVHFrha2kl_jk_s1il (demo :: (complex, unit, unit) collab) (\<lambda>p. if p = 1 then 1 else 0)
        (\<lambda>p. 1) (\<lambda>p. 0) 2 1 (shells 0 0 1 0) one_ao_each (\<lambda>p. 1) () 2 ()))"
  proof
    assume "agree_on (0 * (2 * 2)) (0 * (2 * 2) + 2 * 2)
     (projr (CVHFrha2kl_jk_s1il (demo :: (complex, unit, unit) collab) (\<lambda>p. 0)
        (\<lambda>p. 1) (\<lambda>p. 0) 2 1 (shells 0 0 1 0) one_ao_each (\<lambda>p. 1) () 2 ()))
     (projr (CVHFrha2kl_jk_s1il (demo :: (complex, unit, unit) collab) (\<lambda>p. if p = 1 then 1 else 0)
        (\<lambda>p. 1) (\<lambda>p. 0) 2 1 (shells 0 0 1 0) one_ao_each (\<lambda>p. 1) () 2 ()))"
    from agree_onD[OF this, of 1] v0 v1 show False by simp
  qed
  then show ?thesis using a v0 v1 by (intro conjI)
qed

end
